theory Spec2Isabelle
  imports Main "HOL-Library.AList"
begin

section \<open>Python values, exceptions and the logging module\<close>

text \<open>
  The engine of \<^verbatim>\<open>BaseMachine/state_machine.py\<close> is dynamically typed: a transition may
  return any object, and the loop inspects its shape with \<^verbatim>\<open>isinstance\<close>. The values the
  loop can tell apart are modelled by \<open>pyval\<close>; \<open>PFloat m e\<close> is the finite float
  whose value is \<open>m * 2 ^ e\<close> (every finite float is such a number, and it is zero
  exactly when \<open>m\<close> is).
\<close>

datatype pyval =
    PNone
  | PBool bool
  | PInt int
  | PFloat int int
  | PStr string
  | PTuple "pyval list"
  | PList "pyval list"
  | PDict "(pyval \<times> pyval) list"

text \<open>Truth value of an object, as \<^verbatim>\<open>if x\<close> and \<^verbatim>\<open>x if x else y\<close> test it.\<close>

fun truthy :: "pyval \<Rightarrow> bool" where
  "truthy PNone = False"
| "truthy (PBool b) = b"
| "truthy (PInt i) = (i \<noteq> 0)"
| "truthy (PFloat m e) = (m \<noteq> 0)"
| "truthy (PStr s) = (s \<noteq> [])"
| "truthy (PTuple vs) = (vs \<noteq> [])"
| "truthy (PList vs) = (vs \<noteq> [])"
| "truthy (PDict kvs) = (kvs \<noteq> [])"

text \<open>Lists and dicts are unhashable, and so is a tuple that holds one.\<close>

fun hashable :: "pyval \<Rightarrow> bool" where
  "hashable (PTuple vs) = (\<forall>v \<in> set vs. hashable v)"
| "hashable (PList vs) = False"
| "hashable (PDict kvs) = False"
| "hashable v = True"

text \<open>
  Exception classes. \<open>NotImplementedError\<close> stands for the subclasses of \<open>RuntimeError\<close>,
  \<open>OtherException\<close> for any further subclass of \<open>Exception\<close>, and \<open>BaseExceptionOnly\<close> for
  \<^verbatim>\<open>SystemExit\<close>, \<^verbatim>\<open>KeyboardInterrupt\<close> and the like, which \<^verbatim>\<open>except Exception\<close> does not
  catch. \<open>ProcessError\<close> carries its \<^verbatim>\<open>exit_code\<close>. \<open>msg\<close> is \<^verbatim>\<open>str(e)\<close>. The texts of errors
  raised by the interpreter itself are abbreviated.
\<close>

datatype exn_class =
    RuntimeError | NotImplementedError | ValueError | TypeError | IndexError | KeyError
  | AttributeError | CLINotFoundError | ProcessError pyval | OtherException | BaseExceptionOnly

datatype exn = Exn (cls: exn_class) (msg: string)

fun isinstance_RuntimeError :: "exn \<Rightarrow> bool" where
  "isinstance_RuntimeError (Exn c s) = (c = RuntimeError \<or> c = NotImplementedError)"

fun isinstance_Exception :: "exn \<Rightarrow> bool" where
  "isinstance_Exception (Exn c s) = (c \<noteq> BaseExceptionOnly)"

text \<open>\<^verbatim>\<open>needle in haystack\<close> on strings.\<close>

primrec str_contains :: "string \<Rightarrow> string \<Rightarrow> bool" where
  "str_contains needle [] = (needle = [])"
| "str_contains needle (c # cs) =
     (take (length needle) (c # cs) = needle \<or> str_contains needle cs)"

definition usage_limit_marker :: string where
  "usage_limit_marker = ''Claude AI usage limit reached''"

definition usage_limit :: "exn \<Rightarrow> bool" where
  "usage_limit e = (isinstance_RuntimeError e \<and> str_contains usage_limit_marker (msg e))"

text \<open>
  Records of the \<^verbatim>\<open>logging\<close> module. \<open>LogTraceback\<close> is the record whose text is the
  formatted traceback of the exception; \<open>LogValue\<close> is a text with the printed form of a
  value in it. The ANSI colour codes around the texts are left out.
\<close>

datatype log_level = DEBUG | INFO | WARNING | ERROR

datatype log_record =
    LogText log_level string
  | LogValue log_level string pyval string
  | LogTraceback log_level exn

section \<open>The world outside a machine\<close>

text \<open>
  List objects have identity: \<^verbatim>\<open>self.messages = getattr(self.context, 'messages', [])\<close> makes
  the machine and its context share one list. \<open>lists\<close> maps a reference to the list's
  current contents, \<open>next_ref\<close> is the next unused reference. \<open>requests\<close> counts the
  completion requests sent to model providers.
\<close>

record world =
  lists :: "nat \<Rightarrow> pyval list"
  next_ref :: nat
  log :: "log_record list"
  requests :: nat

definition logging :: "log_record \<Rightarrow> world \<Rightarrow> world" where
  "logging r w = w\<lparr>log := log w @ [r]\<rparr>"

definition list_append :: "nat \<Rightarrow> pyval \<Rightarrow> world \<Rightarrow> world" where
  "list_append r v w = w\<lparr>lists := (lists w)(r := lists w r @ [v])\<rparr>"

definition list_extend :: "nat \<Rightarrow> nat \<Rightarrow> world \<Rightarrow> world" where
  "list_extend r r' w = w\<lparr>lists := (lists w)(r := lists w r @ lists w r')\<rparr>"

definition new_list :: "world \<Rightarrow> nat \<times> world" where
  "new_list w =
     (next_ref w, w\<lparr>lists := (lists w)(next_ref w := []), next_ref := Suc (next_ref w)\<rparr>)"

section \<open>Machines, actions and states\<close>

text \<open>
  A context is a caller-supplied object. The engine reads one attribute of it, \<^verbatim>\<open>messages\<close>,
  which holds a list when present; agent actions call its \<^verbatim>\<open>get\<close> method, which a context
  class may or may not define (\<open>ctx_get\<close>).
\<close>

record Context =
  ctx_messages :: "nat option"
  ctx_attrs :: "(string \<times> pyval) list"
  ctx_get :: bool

record config =
  config_path :: string
  top_p :: pyval

text \<open>Completion responses (\<^verbatim>\<open>response.choices[0].message.content\<close>).\<close>

record message =
  content :: pyval
  parsed :: pyval

record response =
  choices :: "message list"

text \<open>
  A client answers a request (a dict of parameters); what it answers is up to the provider
  and may differ from one request to the next, so it also depends on how many requests were
  issued before.
\<close>

type_synonym client = "(string \<times> pyval) list \<Rightarrow> nat \<Rightarrow> exn + response"

type_synonym model_info = "(string \<times> pyval) list"

datatype saved = SavedValue pyval | SavedContext Context | SavedBoth Context pyval

text \<open>
  The attributes of a \<^verbatim>\<open>StateMachine\<close> object that actions and transitions work on.
  \<open>messages\<close> is a reference to a list object. (\<^verbatim>\<open>mode\<close>, \<^verbatim>\<open>cwd\<close>, \<^verbatim>\<open>unified_config\<close> and
  \<^verbatim>\<open>hybrid_history\<close> are left out.)
\<close>

record machine =
  ctxt :: Context
  config :: config
  clients :: "(client \<times> model_info) list"
  agent_results :: "pyval list"
  analysis_result :: "saved list"
  messages :: nat
  total_input_tokens :: int
  total_output_tokens :: int

text \<open>
  Calling a function has one of three outcomes: it returns a value, it raises, or it never
  comes back (\<open>None\<close>). Side effects made before a raise stay.
\<close>

type_synonym 'a outcome = "((exn + 'a) \<times> machine \<times> world) option"

text \<open>
  An action is a Python function object. \<open>arg_names\<close> are its declared parameters (the first
  one receives the machine), \<open>required\<close> those after the first that have no default,
  \<open>var_keyword\<close> the name of its \<^verbatim>\<open>**kwargs\<close> parameter if it has one, \<open>local_names\<close> the
  local variables of its body. \<open>body\<close> is run on the keyword arguments bound by the call.
\<close>

record action =
  arg_names :: "string list"
  required :: "string list"
  var_keyword :: "string option"
  local_names :: "string list"
  body :: "(string \<times> pyval) list \<Rightarrow> machine \<Rightarrow> world \<Rightarrow> pyval outcome"

type_synonym transition = "pyval \<Rightarrow> machine \<Rightarrow> world \<Rightarrow> pyval outcome"

text \<open>\<^verbatim>\<open>__code__.co_varnames\<close>: the parameters, then the local variables.\<close>

definition co_varnames :: "action \<Rightarrow> string list" where
  "co_varnames a =
     arg_names a @ (case var_keyword a of None \<Rightarrow> [] | Some k \<Rightarrow> [k]) @ local_names a"

fun is_PStr :: "pyval \<Rightarrow> bool" where
  "is_PStr (PStr s) = True"
| "is_PStr v = False"

fun is_PTuple :: "pyval \<Rightarrow> bool" where
  "is_PTuple (PTuple vs) = True"
| "is_PTuple v = False"

fun str_of :: "pyval \<Rightarrow> string" where
  "str_of (PStr s) = s"
| "str_of v = []"

text \<open>
  The call \<^verbatim>\<open>action_func(self, **kwargs)\<close>: the object after \<^verbatim>\<open>**\<close> must be a dict with
  string keys, every key must name a parameter other than the first (unless the function
  takes \<^verbatim>\<open>**kwargs\<close>), and every required parameter must be given. \<^verbatim>\<open>action_func(self)\<close> is
  the same call with no keyword.
\<close>

definition bind_kwargs :: "action \<Rightarrow> pyval \<Rightarrow> exn + (string \<times> pyval) list" where
  "bind_kwargs a kwargs =
     (case kwargs of
        PDict kvs \<Rightarrow>
          if \<not> list_all is_PStr (map fst kvs)
          then Inl (Exn TypeError ''keywords must be strings'')
          else if arg_names a = []
          then Inl (Exn TypeError ''takes 0 positional arguments but 1 was given'')
          else if hd (arg_names a) \<in> set (map (str_of \<circ> fst) kvs)
          then Inl (Exn TypeError ''got multiple values for argument'')
          else if var_keyword a = None \<and>
                  \<not> list_all (\<lambda>k. k \<in> set (tl (arg_names a))) (map (str_of \<circ> fst) kvs)
          then Inl (Exn TypeError ''got an unexpected keyword argument'')
          else if \<not> list_all (\<lambda>r. r \<in> set (map (str_of \<circ> fst) kvs)) (required a)
          then Inl (Exn TypeError ''missing required positional argument'')
          else Inr (map (\<lambda>(k, v). (str_of k, v)) kvs)
      | _ \<Rightarrow> Inl (Exn TypeError ''argument after ** must be a mapping''))"

definition call_action :: "action \<Rightarrow> pyval \<Rightarrow> machine \<Rightarrow> world \<Rightarrow> pyval outcome" where
  "call_action a kwargs m w =
     (case bind_kwargs a kwargs of
        Inl e \<Rightarrow> Some (Inl e, m, w)
      | Inr kvs \<Rightarrow> body a kvs m w)"

datatype state = BaseState string action "transition option" | ExitState

text \<open>An entry of \<^verbatim>\<open>state_definitions\<close>: a dict that may have the keys \<^verbatim>\<open>action\<close> and
  \<^verbatim>\<open>next_state_func\<close>.\<close>

record state_config =
  cfg_action :: "action option"
  cfg_next_state_func :: "transition option"

record StateMachine =
  state :: "state option"
  states :: "string \<rightharpoonup> state"
  mach :: machine


section \<open>Construction\<close>

text \<open>
  \<^verbatim>\<open>StateMachine._create_states\<close>: the entry named Exit becomes an \<^verbatim>\<open>ExitState\<close> whatever it
  holds; any other entry becomes a \<^verbatim>\<open>BaseState\<close>, and \<^verbatim>\<open>config['action']\<close> raises
  \<^verbatim>\<open>KeyError\<close> when the key is missing.
\<close>

fun create_states_loop ::
  "(string \<times> state_config) list \<Rightarrow> (string \<rightharpoonup> state) \<Rightarrow> exn + (string \<rightharpoonup> state)" where
  "create_states_loop [] sts = Inr sts"
| "create_states_loop ((name, cfg) # rest) sts =
     (if name = ''Exit'' then create_states_loop rest (sts(name \<mapsto> ExitState))
      else case cfg_action cfg of
             None \<Rightarrow> Inl (Exn KeyError ''action'')
           | Some a \<Rightarrow>
               create_states_loop rest (sts(name \<mapsto> BaseState name a (cfg_next_state_func cfg))))"

definition create_states :: "(string \<times> state_config) list \<Rightarrow> exn + (string \<rightharpoonup> state)" where
  "create_states state_definitions = create_states_loop state_definitions Map.empty"

text \<open>
  What the constructor gets from outside the engine: the directory of the module, the
  result of reading a configuration file, and the result of building a \<^verbatim>\<open>ModelManager\<close> for
  a configuration path (its constructor may raise; so may its \<^verbatim>\<open>initialize_client\<close>).
\<close>

record env =
  module_dir :: string
  load_config :: "string \<Rightarrow> exn + config"
  model_manager :: "string \<Rightarrow> exn + (exn + (client \<times> model_info) list)"

definition load_config_of :: "env \<Rightarrow> string \<Rightarrow> exn + config" where
  "load_config_of ev path =
     (let p = (if path = [] then module_dir ev @ ''/../.config/config.json'' else path)
      in case load_config ev p of
           Inl e \<Rightarrow> Inl e
         | Inr c \<Rightarrow> Inr (c\<lparr>config_path := p\<rparr>))"

text \<open>
  \<^verbatim>\<open>StateMachine.__init__\<close>, in the order of its statements: the model manager (unless the
  mode is \<^verbatim>\<open>action\<close> or no models are required), the configuration, the bookkeeping
  attributes, the clients, the states, and last the initial state, which must be a key of
  \<^verbatim>\<open>state_definitions\<close>. The change of working directory is left out.
\<close>

definition initial_state_error :: "string \<Rightarrow> exn" where
  "initial_state_error initial_state =
     Exn ValueError
       (''Initial state '' @ [CHR 0x27] @ initial_state @ [CHR 0x27] @
        '' is not defined in state_definitions.'')"

definition StateMachine_init ::
  "env \<Rightarrow> Context \<Rightarrow> (string \<times> state_config) list \<Rightarrow> string \<Rightarrow> string \<Rightarrow> string \<Rightarrow> bool
     \<Rightarrow> world \<Rightarrow> (exn + StateMachine) \<times> world" where
  "StateMachine_init ev context state_definitions initial_state path mode require_models w =
     (case (if require_models \<and> mode \<noteq> ''action'' then map_sum id Some (model_manager ev path)
            else Inr None) of
        Inl e \<Rightarrow> (Inl e, w)
      | Inr manager \<Rightarrow>
     (case load_config_of ev path of
        Inl e \<Rightarrow> (Inl e, w)
      | Inr cfg \<Rightarrow>
     (case (case ctx_messages context of Some r \<Rightarrow> (r, w) | None \<Rightarrow> new_list w) of
        (msgs, w1) \<Rightarrow>
     (case (case manager of Some init \<Rightarrow> init | None \<Rightarrow> Inr []) of
        Inl e \<Rightarrow> (Inl e, w1)
      | Inr cl \<Rightarrow>
     (case create_states state_definitions of
        Inl e \<Rightarrow> (Inl e, w1)
      | Inr sts \<Rightarrow>
     (case sts initial_state of
        None \<Rightarrow> (Inl (initial_state_error initial_state), w1)
      | Some st \<Rightarrow>
          (Inr \<lparr>state = Some st, states = sts,
                mach = \<lparr>ctxt = context, config = cfg, clients = cl, agent_results = [],
                         analysis_result = [],
                         messages = msgs, total_input_tokens = 0,
                         total_output_tokens = 0\<rparr>\<rparr>, w1)))))))"

section \<open>The execution loop\<close>

text \<open>\<^verbatim>\<open>self.states.get(next_state_name, ExitState())\<close>; the keys are strings.\<close>

definition states_get :: "(string \<rightharpoonup> state) \<Rightarrow> pyval \<Rightarrow> exn + state" where
  "states_get sts k =
     (if \<not> hashable k then Inl (Exn TypeError ''unhashable type'')
      else case k of
             PStr s \<Rightarrow> (case sts s of Some st \<Rightarrow> Inr st | None \<Rightarrow> Inr ExitState)
           | _ \<Rightarrow> Inr ExitState)"

text \<open>
  Decoding what \<^verbatim>\<open>next_state_func\<close> returned: the next state and the arguments for its
  action. The tuple test comes first, as in the source.
\<close>

definition shape_error :: exn where
  "shape_error =
     Exn ValueError ''next_state_func must return a string or a tuple (state_name, args_dict)''"

definition decode_next_state :: "(string \<rightharpoonup> state) \<Rightarrow> pyval \<Rightarrow> exn + (state \<times> pyval)" where
  "decode_next_state sts next_state_info =
     (case next_state_info of
        PTuple vs \<Rightarrow>
          (case vs of
             [] \<Rightarrow> Inl (Exn IndexError ''tuple index out of range'')
           | next_state_name # rest \<Rightarrow>
               (case states_get sts next_state_name of
                  Inl e \<Rightarrow> Inl e
                | Inr st \<Rightarrow> Inr (st, (case rest of [] \<Rightarrow> PDict [] | a # _ \<Rightarrow> a))))
      | PStr next_state_name \<Rightarrow>
          (case states_get sts (PStr next_state_name) of
             Inl e \<Rightarrow> Inl e
           | Inr st \<Rightarrow> Inr (st, PDict []))
      | _ \<Rightarrow> Inl shape_error)"

text \<open>
  The choice of calling convention: \<^verbatim>\<open>len(action_func.__code__.co_varnames) > 1\<close> passes the
  pending arguments (or an empty dict when they are falsy) as keywords. (The pending
  arguments are set anew after every transition, so clearing them here is not modelled.)
\<close>

definition invoke_action :: "action \<Rightarrow> pyval \<Rightarrow> machine \<Rightarrow> world \<Rightarrow> pyval outcome" where
  "invoke_action action_func extra_args m w =
     (if length (co_varnames action_func) > 1
      then call_action action_func (if truthy extra_args then extra_args else PDict []) m w
      else call_action action_func (PDict []) m w)"

text \<open>
  The body of the \<^verbatim>\<open>try\<close> for a state that is not the exit state: the action, the
  transition, the decoding. It ends with an exception, or with the next state, the next
  pending arguments and the action's result.
\<close>

definition try_body ::
  "(string \<rightharpoonup> state) \<Rightarrow> action \<Rightarrow> transition option \<Rightarrow> pyval \<Rightarrow> machine \<Rightarrow> world
     \<Rightarrow> ((exn + state \<times> pyval \<times> pyval) \<times> machine \<times> world) option" where
  "try_body sts action_func next_state_func extra_args m w =
     (case invoke_action action_func extra_args m w of
        None \<Rightarrow> None
      | Some (Inl e, m1, w1) \<Rightarrow> Some (Inl e, m1, w1)
      | Some (Inr result, m1, w1) \<Rightarrow>
          (case next_state_func of
             None \<Rightarrow> Some (Inl (Exn TypeError ''NoneType object is not callable''), m1, w1)
           | Some f \<Rightarrow>
               (case f result m1 w1 of
                  None \<Rightarrow> None
                | Some (Inl e, m2, w2) \<Rightarrow> Some (Inl e, m2, w2)
                | Some (Inr next_state_info, m2, w2) \<Rightarrow>
                    (case decode_next_state sts next_state_info of
                       Inl e \<Rightarrow> Some (Inl e, m2, w2)
                     | Inr (st, extra_args') \<Rightarrow> Some (Inr (st, extra_args', result), m2, w2)))))"

text \<open>
  The two \<^verbatim>\<open>except\<close> clauses. \<open>True\<close> means the exception leaves \<^verbatim>\<open>process\<close> (re-raised,
  or caught by neither clause), \<open>False\<close> means \<^verbatim>\<open>break\<close>.
\<close>

definition quoted :: "string \<Rightarrow> string" where
  "quoted s = [CHR 0x27] @ s @ [CHR 0x27]"

definition except_clauses :: "string \<Rightarrow> exn \<Rightarrow> world \<Rightarrow> bool \<times> world" where
  "except_clauses name e w =
     (if isinstance_RuntimeError e then
        (if str_contains usage_limit_marker (msg e)
         then (True, logging (LogText ERROR
                 (''Claude AI usage limit reached in state '' @ quoted name)) w)
         else (False, logging (LogTraceback ERROR e)
                 (logging (LogText ERROR
                    (''Runtime error in state '' @ quoted name @ '': '' @ msg e)) w)))
      else if isinstance_Exception e then
        (False, logging (LogTraceback ERROR e)
           (logging (LogText ERROR
              (''Error in state '' @ quoted name @ '': '' @ msg e)) w))
      else (True, w))"

text \<open>One pass through the \<^verbatim>\<open>while True\<close> of \<^verbatim>\<open>StateMachine.process\<close>.\<close>

datatype step =
    Next StateMachine pyval pyval world
  | Return pyval StateMachine world
  | Raise exn StateMachine world

definition iteration :: "StateMachine \<Rightarrow> pyval \<Rightarrow> pyval \<Rightarrow> world \<Rightarrow> step option" where
  "iteration sm previous_result extra_args w =
     (case state sm of
        None \<Rightarrow> Some (Return previous_result sm w)
      | Some ExitState \<Rightarrow> Some (Return previous_result sm w)
      | Some (BaseState name action_func next_state_func) \<Rightarrow>
          (case try_body (states sm) action_func next_state_func extra_args (mach sm) w of
             None \<Rightarrow> None
           | Some (Inr (st, extra_args', result), m', w') \<Rightarrow>
               Some (Next (sm\<lparr>state := Some st, mach := m'\<rparr>) result extra_args' w')
           | Some (Inl e, m', w') \<Rightarrow>
               (case except_clauses name e w' of
                  (True, w'') \<Rightarrow> Some (Raise e (sm\<lparr>mach := m'\<rparr>) w'')
                | (False, w'') \<Rightarrow> Some (Return PNone (sm\<lparr>mach := m'\<rparr>) w''))))"

partial_function (option) process_loop ::
  "StateMachine \<Rightarrow> pyval \<Rightarrow> pyval \<Rightarrow> world \<Rightarrow> ((exn + pyval) \<times> StateMachine \<times> world) option" where
  "process_loop sm previous_result extra_args w =
     (case iteration sm previous_result extra_args w of
        None \<Rightarrow> None
      | Some (Next sm' result extra_args' w') \<Rightarrow> process_loop sm' result extra_args' w'
      | Some (Return v sm' w') \<Rightarrow> Some (Inr v, sm', w')
      | Some (Raise e sm' w') \<Rightarrow> Some (Inl e, sm', w'))"

definition process :: "StateMachine \<Rightarrow> world \<Rightarrow> ((exn + pyval) \<times> StateMachine \<times> world) option" where
  "process sm w = process_loop sm PNone (PDict []) w"


declare process_loop.simps [code]

text \<open>\<open>run_steps n\<close>: the loop makes \<open>n\<close> passes, each of which completes its action and its
  transition and moves on to a next state.\<close>

fun run_steps ::
  "nat \<Rightarrow> StateMachine \<Rightarrow> pyval \<Rightarrow> pyval \<Rightarrow> world
     \<Rightarrow> (StateMachine \<times> pyval \<times> pyval \<times> world) option" where
  "run_steps 0 sm previous_result extra_args w = Some (sm, previous_result, extra_args, w)"
| "run_steps (Suc n) sm previous_result extra_args w =
     (case iteration sm previous_result extra_args w of
        Some (Next sm' result extra_args' w') \<Rightarrow> run_steps n sm' result extra_args' w'
      | _ \<Rightarrow> None)"


section \<open>The retrying request (\<^verbatim>\<open>llm_helpers.reliable_parse\<close>)\<close>

definition call_client ::
  "client \<Rightarrow> (string \<times> pyval) list \<Rightarrow> world \<Rightarrow> (exn + response) \<times> world" where
  "call_client c params w = (c params (requests w), w\<lparr>requests := Suc (requests w)\<rparr>)"

definition as_dict :: "(string \<times> pyval) list \<Rightarrow> pyval" where
  "as_dict kvs = PDict (map (\<lambda>(k, v). (PStr k, v)) kvs)"

text \<open>The loop of the default branch. A call that raises, or a response without
  choices (\<^verbatim>\<open>response.choices[0]\<close>), ends it with the exception.\<close>

function default_loop ::
  "client \<Rightarrow> (string \<times> pyval) list \<Rightarrow> int \<Rightarrow> int \<Rightarrow> world \<Rightarrow> (exn + response option) \<times> world" where
  "default_loop c request_params max_retries retries w =
     (if retries < max_retries then
        (case call_client c request_params w of
           (Inl e, w1) \<Rightarrow> (Inl e, w1)
         | (Inr response, w1) \<Rightarrow>
             (case choices response of
                [] \<Rightarrow> (Inl (Exn IndexError ''list index out of range''), w1)
              | message # _ \<Rightarrow>
                  if truthy (content message) then (Inr (Some response), w1)
                  else default_loop c request_params max_retries (retries + 1)
                         (logging (LogText INFO
                            ''The message content is null or empty, re-running the request...'') w1)))
      else (Inr None,
            logging (LogText ERROR ''Failed to get a valid response after maximum retries.'') w))"
  by pat_completeness auto
termination
  by (relation "measure (\<lambda>(c, p, max_retries, retries, w). nat (max_retries - retries))") auto

declare default_loop.simps [simp del]

text \<open>The loop of the OpenRouter branch: a response without choices counts as empty, and
  an exception of the call is logged and uses up one attempt.\<close>

function openrouter_loop ::
  "client \<Rightarrow> (string \<times> pyval) list \<Rightarrow> bool \<Rightarrow> int \<Rightarrow> int \<Rightarrow> world
     \<Rightarrow> (exn + response option) \<times> world" where
  "openrouter_loop c merged_params debug max_retries retries w =
     (if retries < max_retries then
        (case call_client c merged_params
                (if debug
                 then logging (LogValue INFO ''OpenRouter request params: '' (as_dict merged_params) []) w
                 else w) of
           (Inl e, w1) \<Rightarrow>
             if isinstance_Exception e
             then openrouter_loop c merged_params debug max_retries (retries + 1)
                    (logging (LogText ERROR (''OpenRouter request exception: '' @ msg e)) w1)
             else (Inl e, w1)
         | (Inr response, w1) \<Rightarrow>
             if choices response = [] \<or> \<not> truthy (content (hd (choices response)))
             then openrouter_loop c merged_params debug max_retries (retries + 1)
                    (logging (LogText INFO ''Message content is empty, resending request...'') w1)
             else (Inr (Some response), w1))
      else (Inr None,
            logging (LogText ERROR
              ''Unable to get a valid OpenRouter response after maximum retries.'') w))"
  by pat_completeness auto
termination
  by (relation "measure (\<lambda>(c, p, d, max_retries, retries, w). nat (max_retries - retries))") auto

declare openrouter_loop.simps [simp del]

text \<open>
  \<^verbatim>\<open>k in x\<close> and \<^verbatim>\<open>x[k]\<close> for a string \<open>k\<close>. A dict is asked for a key, a string for a
  substring, a list or tuple for an element; any other object is not iterable. Only a dict
  can be indexed by a string.
\<close>

fun py_in :: "string \<Rightarrow> pyval \<Rightarrow> exn + bool" where
  "py_in k (PDict kvs) = Inr (PStr k \<in> set (map fst kvs))"
| "py_in k (PStr s) = Inr (str_contains k s)"
| "py_in k (PList vs) = Inr (PStr k \<in> set vs)"
| "py_in k (PTuple vs) = Inr (PStr k \<in> set vs)"
| "py_in k v = Inl (Exn TypeError ''argument is not iterable'')"

fun py_getitem :: "pyval \<Rightarrow> string \<Rightarrow> exn + pyval" where
  "py_getitem (PDict kvs) k =
     (case map_of kvs (PStr k) of None \<Rightarrow> Inl (Exn KeyError k) | Some v \<Rightarrow> Inr v)"
| "py_getitem (PStr s) k = Inl (Exn TypeError ''string indices must be integers'')"
| "py_getitem (PList vs) k = Inl (Exn TypeError ''list indices must be integers or slices'')"
| "py_getitem (PTuple vs) k = Inl (Exn TypeError ''tuple indices must be integers or slices'')"
| "py_getitem v k = Inl (Exn TypeError ''object is not subscriptable'')"

text \<open>\<^verbatim>\<open>if k in a: ... a[k]\<close>: the value when the test succeeds, \<open>None\<close> when it fails.\<close>

definition pick :: "pyval \<Rightarrow> string \<Rightarrow> exn + pyval option" where
  "pick a k =
     (case py_in k a of
        Inl e \<Rightarrow> Inl e
      | Inr False \<Rightarrow> Inr None
      | Inr True \<Rightarrow> (case py_getitem a k of Inl e \<Rightarrow> Inl e | Inr v \<Rightarrow> Inr (Some v)))"

text \<open>A run of such tests, each storing what it found under a name of the new dict.\<close>

fun collect ::
  "pyval \<Rightarrow> (string \<times> string) list \<Rightarrow> (pyval \<times> pyval) list \<Rightarrow> exn + (pyval \<times> pyval) list" where
  "collect a [] acc = Inr acc"
| "collect a ((k, name) # ks) acc =
     (case pick a k of
        Inl e \<Rightarrow> Inl e
      | Inr None \<Rightarrow> collect a ks acc
      | Inr (Some v) \<Rightarrow> collect a ks (acc @ [(PStr name, v)]))"

text \<open>The API key of an OpenRouter model: the entry of \<^verbatim>\<open>model_info\<close>, else, when that is
  missing or falsy, the one of its \<^verbatim>\<open>additional_kwargs\<close>.\<close>

definition api_key :: "model_info \<Rightarrow> exn + pyval" where
  "api_key info =
     (let key = (case map_of info ''openrouter_api_key'' of None \<Rightarrow> PNone | Some v \<Rightarrow> v)
      in if \<not> truthy key
         then (case map_of info ''additional_kwargs'' of
                 None \<Rightarrow> Inr key
               | Some a \<Rightarrow>
                   (case pick a ''openrouter_api_key'' of
                      Inl e \<Rightarrow> Inl e
                    | Inr None \<Rightarrow> Inr key
                    | Inr (Some v) \<Rightarrow> Inr v))
         else Inr key)"

definition merged_params ::
  "(string \<times> pyval) list \<Rightarrow> (pyval \<times> pyval) list \<Rightarrow> (pyval \<times> pyval) list
     \<Rightarrow> (string \<times> pyval) list" where
  "merged_params request_params extra_headers extra_body =
     (let p = (if extra_headers = [] then request_params
               else AList.update ''extra_headers'' (PDict extra_headers) request_params)
      in if extra_body = [] then p
         else AList.update ''extra_body'' (PDict extra_body) p)"

text \<open>
  What the OpenRouter branch does before its loop, in the order of the source: the API
  key (a \<^verbatim>\<open>ValueError\<close> when none is found), the extra headers, the extra body, and the
  merged request. Each test on \<^verbatim>\<open>additional_kwargs\<close> can raise. The second component is
  the reasoning parameter when one was found: it is logged at that point, before the
  later tests.
\<close>

definition openrouter_params ::
  "model_info \<Rightarrow> (string \<times> pyval) list \<Rightarrow> (exn + (string \<times> pyval) list) \<times> pyval option" where
  "openrouter_params info request_params =
     (case api_key info of
        Inl e \<Rightarrow> (Inl e, None)
      | Inr key \<Rightarrow>
     if \<not> truthy key
     then (Inl (Exn ValueError ''OpenRouter API key not found in model_info''), None)
     else
     (case map_of info ''additional_kwargs'' of
        None \<Rightarrow> (Inr (merged_params request_params [] []), None)
      | Some a \<Rightarrow>
     (case collect a [(''http_referer'', ''HTTP-Referer''), (''x_title'', ''X-Title'')] [] of
        Inl e \<Rightarrow> (Inl e, None)
      | Inr extra_headers \<Rightarrow>
     (case pick a ''reasoning'' of
        Inl e \<Rightarrow> (Inl e, None)
      | Inr reasoning \<Rightarrow>
     (case collect a [(''provider'', ''provider''), (''models'', ''models''),
                      (''routes'', ''routes''), (''transforms'', ''transforms''),
                      (''stream_options'', ''stream_options'')]
             (case reasoning of None \<Rightarrow> [] | Some v \<Rightarrow> [(PStr ''reasoning'', v)]) of
        Inl e \<Rightarrow> (Inl e, reasoning)
      | Inr extra_body \<Rightarrow>
          (Inr (merged_params request_params extra_headers extra_body), reasoning))))))"

text \<open>\<^verbatim>\<open>model_info and model_info.get('provider') == 'openrouter'\<close>.\<close>

definition openrouter_info :: "model_info option \<Rightarrow> model_info option" where
  "openrouter_info model_info =
     (case model_info of
        None \<Rightarrow> None
      | Some info \<Rightarrow>
          if info \<noteq> [] \<and> map_of info ''provider'' = Some (PStr ''openrouter'')
          then Some info else None)"

definition log_reasoning :: "pyval option \<Rightarrow> world \<Rightarrow> world" where
  "log_reasoning reasoning w =
     (case reasoning of
        None \<Rightarrow> w
      | Some v \<Rightarrow> logging (LogValue INFO ''Using OpenRouter reasoning parameter: '' v []) w)"

text \<open>\<^verbatim>\<open>reliable_parse(client, request_params, max_retries=3, debug=False, model_info=None)\<close>;
  \<open>max_retries = None\<close> is a call that leaves the argument out. The result \<open>Inr None\<close> is
  the returned \<^verbatim>\<open>None\<close>.\<close>

definition reliable_parse ::
  "client \<Rightarrow> (string \<times> pyval) list \<Rightarrow> int option \<Rightarrow> bool \<Rightarrow> model_info option \<Rightarrow> world
     \<Rightarrow> (exn + response option) \<times> world" where
  "reliable_parse c request_params max_retries debug model_info w =
     (let n = (case max_retries of None \<Rightarrow> 3 | Some k \<Rightarrow> k) in
      case openrouter_info model_info of
        Some info \<Rightarrow>
          (case openrouter_params info request_params of
             (Inl e, reasoning) \<Rightarrow> (Inl e, log_reasoning reasoning w)
           | (Inr merged, reasoning) \<Rightarrow>
               openrouter_loop c merged debug n 0 (log_reasoning reasoning w))
      | None \<Rightarrow> default_loop c request_params n 0 w)"


section \<open>Chat actions (\<^verbatim>\<open>action_utils.create_chat_action\<close>)\<close>

text \<open>The generator over \<^verbatim>\<open>machine.clients\<close>: the first client whose \<^verbatim>\<open>info['name']\<close> is the
  model name.\<close>

fun select_client ::
  "(client \<times> model_info) list \<Rightarrow> string \<Rightarrow> exn + (client \<times> model_info) option" where
  "select_client [] model_name = Inr None"
| "select_client ((c, info) # rest) model_name =
     (case map_of info ''name'' of
        None \<Rightarrow> Inl (Exn KeyError ''name'')
      | Some v \<Rightarrow> if v = PStr model_name then Inr (Some (c, info))
                   else select_client rest model_name)"

definition chat_message :: "string \<Rightarrow> pyval \<Rightarrow> pyval" where
  "chat_message role text = PDict [(PStr ''role'', PStr role), (PStr ''content'', text)]"

text \<open>The request of a chat action. The float \<^verbatim>\<open>0.01\<close> is \<open>5764607523034235 / 2 ^ 59\<close>.\<close>

definition request_params_of ::
  "pyval \<Rightarrow> pyval list \<Rightarrow> pyval \<Rightarrow> pyval option \<Rightarrow> (string \<times> pyval) list" where
  "request_params_of model msgs tp response_parser =
     [(''model'', model), (''messages'', PList msgs)] @
     (if model \<noteq> PStr ''o1-mini'' \<and> model \<noteq> PStr ''o1-preview''
      then [(''temperature'', PFloat 5764607523034235 (- 59)), (''top_p'', tp)] else []) @
     (case response_parser of None \<Rightarrow> [] | Some rp \<Rightarrow> [(''response_format'', rp)])"

definition invalid_save_option :: exn where
  "invalid_save_option =
     Exn ValueError
       (''Invalid save_option value. Choose from '' @ [CHR 0x27] @ ''prompt'' @ [CHR 0x27] @
        '', '' @ [CHR 0x27] @ ''result'' @ [CHR 0x27] @ '', or '' @ [CHR 0x27] @ ''both'' @
        [CHR 0x27] @ ''.'')"

text \<open>The end of \<^verbatim>\<open>chat_action\<close>: what is saved, by \<^verbatim>\<open>save_option\<close>.\<close>

definition chat_save :: "string \<Rightarrow> string \<Rightarrow> pyval \<Rightarrow> machine \<Rightarrow> exn + machine" where
  "chat_save save_option prompt parsed_result m =
     (if save_option = ''prompt''
      then Inr (m\<lparr>analysis_result := analysis_result m @ [SavedValue (PStr prompt)]\<rparr>)
      else if save_option = ''result''
      then Inr (m\<lparr>analysis_result := analysis_result m @ [SavedValue parsed_result]\<rparr>)
      else if save_option = ''both''
      then Inr (m\<lparr>analysis_result := analysis_result m @
                  [SavedValue (PDict [(PStr ''prompt'', PStr prompt),
                                      (PStr ''result'', parsed_result)])]\<rparr>)
      else if save_option = ''none'' then Inr m
      else Inl invalid_save_option)"

text \<open>
  \<^verbatim>\<open>chat_action(machine, **kwargs)\<close>. \<open>prompt_template\<close> is \<^verbatim>\<open>prompt_template.format\<close>. The
  result of \<^verbatim>\<open>reliable_parse\<close> is used without a test for \<^verbatim>\<open>None\<close>.
\<close>

definition chat_action ::
  "((string \<times> pyval) list \<Rightarrow> exn + string) \<Rightarrow> pyval option \<Rightarrow> string \<Rightarrow> string \<Rightarrow> bool
     \<Rightarrow> (string \<times> pyval) list \<Rightarrow> machine \<Rightarrow> world \<Rightarrow> pyval outcome" where
  "chat_action prompt_template response_parser save_option model_name debug kwargs m w =
     (case prompt_template kwargs of
        Inl e \<Rightarrow> Some (Inl e, m, w)
      | Inr prompt \<Rightarrow>
     (let w1 = list_append (messages m) (chat_message ''user'' (PStr prompt))
                 (if debug then logging (LogText INFO (''Chat Action Prompt: '' @ prompt)) w
                  else w)
      in case select_client (clients m) model_name of
        Inl e \<Rightarrow> Some (Inl e, m, w1)
      | Inr None \<Rightarrow>
          Some (Inl (Exn ValueError
                  (''Model '' @ quoted model_name @ '' not found in initialized clients.'')),
                m, w1)
      | Inr (Some (client_to_use, info)) \<Rightarrow>
     (case map_of info ''model_name'' of
        None \<Rightarrow> Some (Inl (Exn KeyError ''model_name''), m, w1)
      | Some model \<Rightarrow>
     (case reliable_parse client_to_use
             (request_params_of model (lists w1 (messages m)) (top_p (config m)) response_parser)
             (Some 3) debug (Some info)
             (logging (LogValue INFO ''Waiting for the model '' model
                         '' to process the request...'') w1) of
        (Inl e, w2) \<Rightarrow> Some (Inl e, m, w2)
      | (Inr r, w2) \<Rightarrow>
     (let w3 = logging (LogValue INFO ''Model '' model
                         '' processed the request successfully.'') w2
      in case r of
        None \<Rightarrow>
          Some (Inl (Exn AttributeError ''NoneType object has no attribute choices''), m, w3)
      | Some response \<Rightarrow>
     (case choices response of
        [] \<Rightarrow> Some (Inl (Exn IndexError ''list index out of range''), m, w3)
      | message # _ \<Rightarrow>
     (let w4 = list_append (messages m) (chat_message ''assistant'' (content message)) w3;
          parsed_result = (if parsed message = PNone then content message else parsed message)
      in case chat_save save_option prompt parsed_result m of
           Inl e \<Rightarrow> Some (Inl e, m, w4)
         | Inr m' \<Rightarrow> Some (Inr parsed_result, m', w4))))))))"

definition create_chat_action ::
  "((string \<times> pyval) list \<Rightarrow> exn + string) \<Rightarrow> pyval option \<Rightarrow> string \<Rightarrow> string \<Rightarrow> bool
     \<Rightarrow> action" where
  "create_chat_action prompt_template response_parser save_option model_name debug =
     \<lparr>arg_names = [''machine''], required = [], var_keyword = Some ''kwargs'',
      local_names = [''StateMachine'', ''prompt'', ''client_to_use'', ''info'',
                     ''request_params'', ''response'', ''message'', ''parsed_result''],
      body = chat_action prompt_template response_parser save_option model_name debug\<rparr>"

section \<open>Sub-machines (\<^verbatim>\<open>action_utils.call_sub_state_machine_action\<close>)\<close>

text \<open>The three statements that merge the sub-machine's counters and messages into the
  calling machine.\<close>

definition merge_resources :: "machine \<Rightarrow> machine \<Rightarrow> world \<Rightarrow> machine \<times> world" where
  "merge_resources m sub_machine w =
     (m\<lparr>total_input_tokens := total_input_tokens m + total_input_tokens sub_machine,
        total_output_tokens := total_output_tokens m + total_output_tokens sub_machine\<rparr>,
      list_extend (messages m) (messages sub_machine) w)"

definition sub_save :: "string \<Rightarrow> Context \<Rightarrow> pyval \<Rightarrow> machine \<Rightarrow> exn + machine" where
  "sub_save save_option sub_context sub_result m =
     (if save_option = ''prompt''
      then Inr (m\<lparr>analysis_result := analysis_result m @ [SavedContext sub_context]\<rparr>)
      else if save_option = ''result''
      then Inr (m\<lparr>analysis_result := analysis_result m @ [SavedValue sub_result]\<rparr>)
      else if save_option = ''both''
      then Inr (m\<lparr>analysis_result := analysis_result m @ [SavedBoth sub_context sub_result]\<rparr>)
      else Inl invalid_save_option)"

text \<open>
  \<^verbatim>\<open>sub_state_machine_action(machine, **kwargs)\<close>. \<open>sub_context_cls\<close> builds the context of the
  sub-machine from the keyword arguments; the sub-machine is constructed with the
  configuration path of the calling machine and the constructor's defaults
  (\<^verbatim>\<open>mode='chat'\<close>, \<^verbatim>\<open>require_models=True\<close>). Nothing here catches an exception.
\<close>

definition sub_state_machine_action ::
  "env \<Rightarrow> (string \<times> state_config) list \<Rightarrow> string
     \<Rightarrow> ((string \<times> pyval) list \<Rightarrow> world \<Rightarrow> (exn + Context) \<times> world) \<Rightarrow> string
     \<Rightarrow> (string \<times> pyval) list \<Rightarrow> machine \<Rightarrow> world \<Rightarrow> pyval outcome" where
  "sub_state_machine_action ev sub_state_definitions sub_initial_state sub_context_cls
       save_option kwargs m w =
     (case sub_context_cls kwargs w of
        (Inl e, w1) \<Rightarrow> Some (Inl e, m, w1)
      | (Inr sub_context, w1) \<Rightarrow>
     (case StateMachine_init ev sub_context sub_state_definitions sub_initial_state
             (config_path (config m)) ''chat'' True w1 of
        (Inl e, w2) \<Rightarrow> Some (Inl e, m, w2)
      | (Inr sub_machine, w2) \<Rightarrow>
     (case process sub_machine w2 of
        None \<Rightarrow> None
      | Some (Inl e, sub_machine', w3) \<Rightarrow> Some (Inl e, m, w3)
      | Some (Inr sub_result, sub_machine', w3) \<Rightarrow>
     (case merge_resources m (mach sub_machine') w3 of
        (m1, w4) \<Rightarrow>
     (case sub_save save_option sub_context sub_result m1 of
        Inl e \<Rightarrow> Some (Inl e, m1, w4)
      | Inr m2 \<Rightarrow> Some (Inr sub_result, m2, w4))))))"

definition call_sub_state_machine_action ::
  "env \<Rightarrow> (string \<times> state_config) list \<Rightarrow> string
     \<Rightarrow> ((string \<times> pyval) list \<Rightarrow> world \<Rightarrow> (exn + Context) \<times> world) \<Rightarrow> string \<Rightarrow> action" where
  "call_sub_state_machine_action ev sub_state_definitions sub_initial_state sub_context_cls
       save_option =
     \<lparr>arg_names = [''machine''], required = [], var_keyword = Some ''kwargs'',
      local_names = [''StateMachine'', ''sub_context'', ''sub_machine'', ''sub_result''],
      body = sub_state_machine_action ev sub_state_definitions sub_initial_state
               sub_context_cls save_option\<rparr>"


section \<open>Agent actions (\<^verbatim>\<open>agent_action_utils.create_agent_action\<close>)\<close>

text \<open>
  The messages that the agent SDK yields. The action collects the text blocks and the tool
  uses; a text block that contains the usage-limit marker makes it raise a \<^verbatim>\<open>RuntimeError\<close>
  with the marker as its message.
\<close>

datatype block = TextBlock string | ToolUseBlock string pyval | OtherBlock

datatype sdk_message = AssistantMessage "block list" | OtherMessage

fun scan_blocks ::
  "block list \<Rightarrow> string list \<times> pyval list \<Rightarrow> world \<Rightarrow> (exn + string list \<times> pyval list) \<times> world" where
  "scan_blocks [] acc w = (Inr acc, w)"
| "scan_blocks (TextBlock text # bs) (responses, tool_uses) w =
     (if str_contains usage_limit_marker text
      then (Inl (Exn RuntimeError usage_limit_marker),
            logging (LogText ERROR ''Claude AI usage limit reached - stopping pipeline'') w)
      else scan_blocks bs (responses @ [text], tool_uses) w)"
| "scan_blocks (ToolUseBlock name input # bs) (responses, tool_uses) w =
     scan_blocks bs
       (responses, tool_uses @ [PDict [(PStr ''tool'', PStr name), (PStr ''input'', input)]]) w"
| "scan_blocks (OtherBlock # bs) acc w = scan_blocks bs acc w"

text \<open>\<^verbatim>\<open>run_query\<close>: the stream is a list of messages, after which the SDK may raise.\<close>

fun run_query ::
  "sdk_message list \<Rightarrow> exn option \<Rightarrow> string list \<times> pyval list \<Rightarrow> world
     \<Rightarrow> (exn + string list \<times> pyval list) \<times> world" where
  "run_query [] failure acc w = (case failure of None \<Rightarrow> (Inr acc, w) | Some e \<Rightarrow> (Inl e, w))"
| "run_query (AssistantMessage blocks # ms) failure acc w =
     (case scan_blocks blocks acc w of
        (Inl e, w') \<Rightarrow> (Inl e, w')
      | (Inr acc', w') \<Rightarrow> run_query ms failure acc' w')"
| "run_query (OtherMessage # ms) failure acc w = run_query ms failure acc w"

fun join_lines :: "string list \<Rightarrow> string" where
  "join_lines [] = []"
| "join_lines [s] = s"
| "join_lines (s # t # ss) = s @ [CHR 0x0A] @ join_lines (t # ss)"

text \<open>The \<^verbatim>\<open>except\<close> clauses of the action: each logs and re-raises what it caught.\<close>

definition agent_except :: "exn \<Rightarrow> world \<Rightarrow> world" where
  "agent_except e w =
     (case cls e of
        CLINotFoundError \<Rightarrow>
          logging (LogText ERROR
            ''Claude Code CLI not found. Please install with: npm install -g @anthropic-ai/claude-code'') w
      | ProcessError code \<Rightarrow> logging (LogValue ERROR ''Process failed with exit code: '' code []) w
      | _ \<Rightarrow>
          if isinstance_RuntimeError e then
            (if str_contains usage_limit_marker (msg e)
             then logging (LogText ERROR ''Claude AI usage limit reached - stopping execution'') w
             else w)
          else if isinstance_Exception e
          then logging (LogText ERROR (''Agent action failed: '' @ msg e)) w
          else w)"

text \<open>
  \<^verbatim>\<open>action(machine, **kwargs)\<close> of \<^verbatim>\<open>create_agent_action\<close>, with the default output format and
  without stream logging. \<open>query\<close> gives the SDK's stream for a prompt. The prompt is
  formatted and the options are built (with \<^verbatim>\<open>machine.context.get\<close>) before the \<^verbatim>\<open>try\<close>.
\<close>

definition agent_action ::
  "((string \<times> pyval) list \<Rightarrow> exn + string) \<Rightarrow> (string \<Rightarrow> exn + pyval) option
     \<Rightarrow> (string \<Rightarrow> sdk_message list \<times> exn option)
     \<Rightarrow> (string \<times> pyval) list \<Rightarrow> machine \<Rightarrow> world \<Rightarrow> pyval outcome" where
  "agent_action prompt_template response_parser query kwargs m w =
     (case prompt_template kwargs of
        Inl e \<Rightarrow> Some (Inl e, m, w)
      | Inr formatted_prompt \<Rightarrow>
     if \<not> ctx_get (ctxt m)
     then Some (Inl (Exn AttributeError ''object has no attribute get''), m, w)
     else
     (case run_query (fst (query formatted_prompt)) (snd (query formatted_prompt)) ([], []) w of
        (Inl e, w1) \<Rightarrow> Some (Inl e, m, agent_except e w1)
      | (Inr (responses, tool_uses), w1) \<Rightarrow>
     (let full_response = join_lines responses;
          m1 = m\<lparr>agent_results := agent_results m @
                  [PDict [(PStr ''prompt'', PStr formatted_prompt),
                          (PStr ''response'', PStr full_response),
                          (PStr ''tool_uses'', PList tool_uses)]]\<rparr>
      in case response_parser of
           Some parser \<Rightarrow>
             (case parser full_response of
                Inl e \<Rightarrow> Some (Inl e, m1, agent_except e w1)
              | Inr parsed_result \<Rightarrow> Some (Inr parsed_result, m1, w1))
         | None \<Rightarrow>
             Some (Inr (PDict [(PStr ''response'', PStr full_response),
                               (PStr ''tool_uses'', PList tool_uses)]), m1, w1))))"

definition create_agent_action ::
  "((string \<times> pyval) list \<Rightarrow> exn + string) \<Rightarrow> (string \<Rightarrow> exn + pyval) option
     \<Rightarrow> (string \<Rightarrow> sdk_message list \<times> exn option) \<Rightarrow> action" where
  "create_agent_action prompt_template response_parser query =
     \<lparr>arg_names = [''machine''], required = [], var_keyword = Some ''kwargs'',
      local_names = [''formatted_prompt'', ''session_id'', ''options'', ''responses'',
                     ''tool_uses'', ''streaming_messages''],
      body = agent_action prompt_template response_parser query\<rparr>"

section \<open>Example machines\<close>

definition w0 :: world where
  "w0 = \<lparr>lists = (\<lambda>r. []), next_ref = 0, log = [], requests = 0\<rparr>"

text \<open>\<^verbatim>\<open>lambda machine: v\<close>, and a one-parameter function that raises.\<close>

definition returning :: "pyval \<Rightarrow> action" where
  "returning v = \<lparr>arg_names = [''machine''], required = [], var_keyword = None,
                  local_names = [], body = (\<lambda>kvs m w. Some (Inr v, m, w))\<rparr>"

definition raising :: "exn \<Rightarrow> action" where
  "raising e = \<lparr>arg_names = [''machine''], required = [], var_keyword = None,
                local_names = [], body = (\<lambda>kvs m w. Some (Inl e, m, w))\<rparr>"

text \<open>\<^verbatim>\<open>lambda result, machine: v\<close>.\<close>

definition always :: "pyval \<Rightarrow> transition" where
  "always v = (\<lambda>result m w. Some (Inr v, m, w))"

definition entry :: "string \<Rightarrow> action \<Rightarrow> pyval \<Rightarrow> string \<times> state_config" where
  "entry name a next = (name, \<lparr>cfg_action = Some a, cfg_next_state_func = Some (always next)\<rparr>)"

definition exit_entry :: "string \<times> state_config" where
  "exit_entry = (''Exit'', \<lparr>cfg_action = Some (returning PNone), cfg_next_state_func = None\<rparr>)"

definition ex_env :: env where
  "ex_env = \<lparr>module_dir = ''BaseMachine'',
             load_config = (\<lambda>p. Inr \<lparr>config_path = p, top_p = PInt 1\<rparr>),
             model_manager = (\<lambda>p. Inr (Inr []))\<rparr>"

definition ex_context :: Context where
  "ex_context = \<lparr>ctx_messages = None, ctx_attrs = [], ctx_get = True\<rparr>"

text \<open>A machine over \<open>defs\<close> started in state A, as the constructor builds it in \<open>w0\<close>.\<close>

definition machine_A :: "(string \<times> state_config) list \<Rightarrow> (exn + StateMachine) \<times> world" where
  "machine_A defs = StateMachine_init ex_env ex_context defs ''A'' [] ''action'' True w0"

text \<open>The machine that this construction returns (when it does not raise), the world
  after it, and the run of \<^verbatim>\<open>process()\<close> on them.\<close>

definition sm_A :: "(string \<times> state_config) list \<Rightarrow> StateMachine" where
  "sm_A defs = projr (fst (machine_A defs))"

definition w_A :: "(string \<times> state_config) list \<Rightarrow> world" where
  "w_A defs = snd (machine_A defs)"

definition run_A ::
  "(string \<times> state_config) list \<Rightarrow> ((exn + pyval) \<times> StateMachine \<times> world) option" where
  "run_A defs = process (sm_A defs) (w_A defs)"

text \<open>States A and B: A returns 1 and goes to B, B raises a \<^verbatim>\<open>ValueError\<close>.\<close>

definition AB_boom :: "(string \<times> state_config) list" where
  "AB_boom =
     [entry ''A'' (returning (PInt 1)) (PStr ''B''),
      entry ''B'' (raising (Exn ValueError ''boom'')) (PStr ''Exit''),
      exit_entry]"

text \<open>State A alone: it returns 1 and its transition returns the given object.\<close>

definition A_then :: "pyval \<Rightarrow> (string \<times> state_config) list" where
  "A_then next = [entry ''A'' (returning (PInt 1)) next, exit_entry]"

text \<open>A registry without an Exit entry.\<close>

definition only_A :: "(string \<times> state_config) list" where
  "only_A = [entry ''A'' (returning (PInt 1)) (PStr ''Exit'')]"

text \<open>
  \<^verbatim>\<open>def b(machine): tmp = 2; return tmp\<close> has one parameter and one local variable;
  \<^verbatim>\<open>lambda machine: 2\<close> has no local variable. In both registries the transition of A
  returns \<^verbatim>\<open>('B', {'x': 1})\<close>.
\<close>

definition with_local :: action where
  "with_local = \<lparr>arg_names = [''machine''], required = [], var_keyword = None,
                 local_names = [''tmp''], body = (\<lambda>kvs m w. Some (Inr (PInt 2), m, w))\<rparr>"

definition AB_args :: "action \<Rightarrow> (string \<times> state_config) list" where
  "AB_args b =
     [entry ''A'' (returning (PInt 1)) (PTuple [PStr ''B'', PDict [(PStr ''x'', PInt 1)]]),
      entry ''B'' b (PStr ''Exit''),
      exit_entry]"

text \<open>
  A calling machine that has used 2 input and 3 output tokens and whose message list
  (reference 0) holds \<open>x\<close>, in a world where that is the only list.
\<close>

definition ex_machine :: machine where
  "ex_machine =
     \<lparr>ctxt = ex_context,
      config = \<lparr>config_path = ''BaseMachine/../.config/config.json'', top_p = PInt 1\<rparr>,
      clients = [], agent_results = [], analysis_result = [], messages = 0,
      total_input_tokens = 2, total_output_tokens = 3\<rparr>"

definition w_x :: world where
  "w_x = \<lparr>lists = (\<lambda>r. [])(0 := [PStr ''x'']), next_ref = 1, log = [], requests = 0\<rparr>"

text \<open>An action that counts 5 input and 7 output tokens and appends \<open>a\<close> and \<open>b\<close> to the
  messages of its machine, and a sub-machine that runs it once.\<close>

definition spend :: action where
  "spend =
     \<lparr>arg_names = [''machine''], required = [], var_keyword = None, local_names = [],
      body = (\<lambda>kvs m w.
        Some (Inr (PInt 1),
              m\<lparr>total_input_tokens := total_input_tokens m + 5,
                total_output_tokens := total_output_tokens m + 7\<rparr>,
              list_append (messages m) (PStr ''b'') (list_append (messages m) (PStr ''a'') w)))\<rparr>"

definition sub_spend :: "(string \<times> state_config) list" where
  "sub_spend = [entry ''A'' spend (PStr ''Exit''), exit_entry]"

definition fresh_context :: "(string \<times> pyval) list \<Rightarrow> world \<Rightarrow> (exn + Context) \<times> world" where
  "fresh_context kwargs w = (Inr ex_context, w)"

text \<open>An agent action whose stream holds the usage-limit text, and a sub-machine that
  runs it.\<close>

definition capped_agent :: action where
  "capped_agent =
     create_agent_action (\<lambda>kwargs. Inr ''go'') None
       (\<lambda>prompt. ([AssistantMessage [TextBlock ''Claude AI usage limit reached'']], None))"

definition sub_capped :: "(string \<times> state_config) list" where
  "sub_capped = [entry ''A'' capped_agent (PStr ''Exit''), exit_entry]"







text \<open>
  \<open>extends m w m' w'\<close>: from machine \<open>m\<close> in world \<open>w\<close> to \<open>m'\<close> in \<open>w'\<close> neither
  \<^verbatim>\<open>machine.messages\<close> nor the \<^verbatim>\<open>messages\<close> attribute of the context has been rebound, and
  the machine's message list has only grown at its end. Everything else (other
  attributes of the machine or the context, other lists) may have changed. A state is
  \<open>appending\<close> when its action and its transition behave so.
\<close>

definition extends :: "machine \<Rightarrow> world \<Rightarrow> machine \<Rightarrow> world \<Rightarrow> bool" where
  "extends m w m' w' =
     (messages m' = messages m \<and> ctx_messages (ctxt m') = ctx_messages (ctxt m) \<and>
      (\<exists>new. lists w' (messages m) = lists w (messages m) @ new))"

text \<open>The current state of a machine is an exit state or one of its registered states.\<close>

definition state_registered :: "StateMachine \<Rightarrow> bool" where
  "state_registered sm =
     (case state sm of None \<Rightarrow> True | Some st \<Rightarrow> st = ExitState \<or> st \<in> ran (states sm))"

definition appending :: "state \<Rightarrow> bool" where
  "appending st =
     (case st of
        ExitState \<Rightarrow> True
      | BaseState name a nsf \<Rightarrow>
          (\<forall>kvs m w out m' w'. body a kvs m w = Some (out, m', w') \<longrightarrow> extends m w m' w') \<and>
          (case nsf of
             None \<Rightarrow> True
           | Some f \<Rightarrow> \<forall>r m w out m' w'. f r m w = Some (out, m', w') \<longrightarrow> extends m w m' w'))"

text \<open>
  A context whose \<^verbatim>\<open>messages\<close> attribute is the list with reference 0, which holds \<open>x\<close> in
  the world \<open>w_x\<close>; a client that answers every request with "hi"; and a machine with one
  chat state that uses it.
\<close>

definition shared_context :: Context where
  "shared_context = \<lparr>ctx_messages = Some 0, ctx_attrs = [], ctx_get = True\<rparr>"

definition polite :: client where
  "polite = (\<lambda>params k. Inr \<lparr>choices = [\<lparr>content = PStr ''hi'', parsed = PNone\<rparr>]\<rparr>)"

definition chat_env :: env where
  "chat_env = \<lparr>module_dir = ''BaseMachine'',
               load_config = (\<lambda>p. Inr \<lparr>config_path = p, top_p = PInt 1\<rparr>),
               model_manager =
                 (\<lambda>p. Inr (Inr [(polite, [(''name'', PStr ''gpt''),
                                            (''model_name'', PStr ''gpt-4o'')])]))\<rparr>"

definition ask :: action where
  "ask = create_chat_action (\<lambda>kwargs. Inr ''hello'') None ''none'' ''gpt'' False"

definition chat_defs :: "(string \<times> state_config) list" where
  "chat_defs = [entry ''A'' ask (PStr ''Exit''), exit_entry]"

definition chat_machine :: StateMachine where
  "chat_machine =
     projr (fst (StateMachine_init chat_env shared_context chat_defs ''A'' [] ''chat'' True w_x))"

text \<open>
  An action that rebinds \<^verbatim>\<open>machine.messages\<close> to a new list holding a system message, as
  \<^verbatim>\<open>initialize_system_prompt_action\<close> of \<^verbatim>\<open>code_filling_config.py\<close> does (it has one
  parameter and a local variable), and a machine that runs it before a chat state.
\<close>

definition rebind :: action where
  "rebind =
     \<lparr>arg_names = [''machine''], required = [], var_keyword = None,
      local_names = [''symbol''],
      body = (\<lambda>kvs m w.
        case new_list w of
          (r, w1) \<Rightarrow>
            Some (Inr PNone, m\<lparr>messages := r\<rparr>,
                  list_append r
                    (chat_message ''system'' (PStr ''You are an expert in code search.''))
                    w1))\<rparr>"

definition rebinding_defs :: "(string \<times> state_config) list" where
  "rebinding_defs = [entry ''A'' rebind (PStr ''B''), entry ''B'' ask (PStr ''Exit''), exit_entry]"

definition rebinding_machine :: StateMachine where
  "rebinding_machine =
     projr (fst (StateMachine_init chat_env shared_context rebinding_defs ''A'' [] ''chat''
                   True w_x))"

section \<open>Facts about the loop\<close>

lemma process_step:
  "iteration sm p x w = Some (Next sm' p' x' w') \<Longrightarrow>
   process_loop sm p x w = process_loop sm' p' x' w'"
  by (subst process_loop.simps) simp

lemma process_return:
  "iteration sm p x w = Some (Return v sm' w') \<Longrightarrow>
   process_loop sm p x w = Some (Inr v, sm', w')"
  by (subst process_loop.simps) simp

lemma process_raise:
  "iteration sm p x w = Some (Raise e sm' w') \<Longrightarrow>
   process_loop sm p x w = Some (Inl e, sm', w')"
  by (subst process_loop.simps) simp

lemma process_run_steps:
  "run_steps n sm p x w = Some (sm', p', x', w') \<Longrightarrow>
   process_loop sm p x w = process_loop sm' p' x' w'"
proof (induction n arbitrary: sm p x w)
  case 0
  then show ?case by simp
next
  case (Suc n)
  from Suc.prems obtain sm1 p1 x1 w1 where
    it: "iteration sm p x w = Some (Next sm1 p1 x1 w1)" and
    rest: "run_steps n sm1 p1 x1 w1 = Some (sm', p', x', w')"
    by (auto split: option.splits step.splits)
  from process_step [OF it] Suc.IH [OF rest] show ?case by simp
qed

lemma iteration_caught:
  assumes "state sm = Some (BaseState name act nsf)"
    and "try_body (states sm) act nsf x (mach sm) w = Some (Inl e, m', w')"
    and "isinstance_Exception e" and "\<not> usage_limit e"
  shows "iteration sm p x w =
           Some (Return PNone (sm\<lparr>mach := m'\<rparr>) (snd (except_clauses name e w')))"
  using assms by (simp add: iteration_def except_clauses_def usage_limit_def)

lemma iteration_usage_limit:
  assumes "state sm = Some (BaseState name act nsf)"
    and "try_body (states sm) act nsf x (mach sm) w = Some (Inl e, m', w')"
    and "usage_limit e"
  shows "iteration sm p x w =
           Some (Raise e (sm\<lparr>mach := m'\<rparr>)
             (logging (LogText ERROR
                (''Claude AI usage limit reached in state '' @ quoted name)) w'))"
  using assms by (simp add: iteration_def except_clauses_def usage_limit_def)

lemma iteration_Exit:
  "state sm = Some ExitState \<Longrightarrow> iteration sm p x w = Some (Return p sm w)"
  by (simp add: iteration_def)

lemma shape_error_caught: "isinstance_Exception shape_error \<and> \<not> usage_limit shape_error"
  by (simp add: shape_error_def usage_limit_def)

lemma decode_wrong_shape:
  "\<not> is_PStr info \<Longrightarrow> \<not> is_PTuple info \<Longrightarrow> decode_next_state sts info = Inl shape_error"
  by (cases info) (simp_all add: decode_next_state_def)

lemmas ex_defs = machine_A_def sm_A_def w_A_def StateMachine_init_def load_config_of_def
  ex_env_def ex_context_def exit_entry_def entry_def create_states_def new_list_def w0_def
  returning_def always_def

lemmas loop_defs = iteration_def try_body_def invoke_action_def co_varnames_def
  call_action_def bind_kwargs_def decode_next_state_def states_get_def except_clauses_def
  usage_limit_def usage_limit_marker_def logging_def shape_error_def quoted_def

section \<open>Ordinary exceptions in the loop\<close>

lemma except_clauses_caught:
  assumes "isinstance_Exception e" and "\<not> usage_limit e"
  shows "except_clauses name e w =
           (False, logging (LogTraceback ERROR e)
                     (logging (LogText ERROR
                        ((if isinstance_RuntimeError e then ''Runtime error in state ''
                          else ''Error in state '') @ quoted name @ '': '' @ msg e)) w))"
  using assms by (simp add: except_clauses_def usage_limit_def)

text \<open>
  C1 (as the code has it). When the loop has made any number of complete passes and the
  \<^verbatim>\<open>try\<close> body of the next state then raises an exception that is an \<^verbatim>\<open>Exception\<close> and not
  the usage-limit \<^verbatim>\<open>RuntimeError\<close> (raised by the action, by the transition, or while the
  transition's value is decoded), \<^verbatim>\<open>process()\<close> does not raise: a handler logs two error
  records, the text "Runtime error in state" (for a \<^verbatim>\<open>RuntimeError\<close>) or "Error in state"
  (otherwise) with the state's name and the message, and then the traceback; the loop is
  left by \<^verbatim>\<open>break\<close>, and \<^verbatim>\<open>process()\<close> returns \<^verbatim>\<open>None\<close>, whatever the earlier states
  returned.
\<close>

theorem process_ordinary_exception_returns_None:
  assumes "run_steps n sm PNone (PDict []) w = Some (sm', p, x, w')"
    and "state sm' = Some (BaseState name act nsf)"
    and "try_body (states sm') act nsf x (mach sm') w' = Some (Inl e, m'', w'')"
    and "isinstance_Exception e" and "\<not> usage_limit e"
  shows "process sm w =
           Some (Inr PNone, sm'\<lparr>mach := m''\<rparr>,
                 logging (LogTraceback ERROR e)
                   (logging (LogText ERROR
                      ((if isinstance_RuntimeError e then ''Runtime error in state ''
                        else ''Error in state '') @ quoted name @ '': '' @ msg e)) w''))"
proof -
  have "process sm w = process_loop sm' p x w'"
    unfolding process_def using assms(1) by (rule process_run_steps)
  also have "\<dots> = Some (Inr PNone, sm'\<lparr>mach := m''\<rparr>, snd (except_clauses name e w''))"
    using iteration_caught [OF assms(2-5)] by (rule process_return)
  finally show ?thesis
    using assms(4,5) by (simp add: except_clauses_caught)
qed

text \<open>The theorem at the machine with states A and B, where B raises after A returned 1.\<close>

theorem process_ordinary_exception_returns_None_witness:
  "run_steps (Suc 0) (sm_A AB_boom) PNone (PDict []) (w_A AB_boom) =
     Some ((sm_A AB_boom)\<lparr>state := Some (BaseState ''B'' (raising (Exn ValueError ''boom''))
                                            (Some (always (PStr ''Exit''))))\<rparr>,
           PInt 1, PDict [], w_A AB_boom)
   \<and> map_option fst (process (sm_A AB_boom) (w_A AB_boom)) = Some (Inr PNone)
   \<and> map_option (\<lambda>r. log (snd (snd r))) (process (sm_A AB_boom) (w_A AB_boom)) =
       Some [LogText ERROR (''Error in state '' @ quoted ''B'' @ '': boom''),
             LogTraceback ERROR (Exn ValueError ''boom'')]"
proof -
  let ?B = "BaseState ''B'' (raising (Exn ValueError ''boom'')) (Some (always (PStr ''Exit'')))"
  let ?sm' = "(sm_A AB_boom)\<lparr>state := Some ?B\<rparr>"
  have h1: "run_steps (Suc 0) (sm_A AB_boom) PNone (PDict []) (w_A AB_boom) =
              Some (?sm', PInt 1, PDict [], w_A AB_boom)"
    by (simp add: ex_defs AB_boom_def raising_def loop_defs)
  have h2: "state ?sm' = Some ?B" by simp
  have h3: "try_body (states ?sm') (raising (Exn ValueError ''boom''))
              (Some (always (PStr ''Exit''))) (PDict []) (mach ?sm') (w_A AB_boom) =
            Some (Inl (Exn ValueError ''boom''), mach ?sm', w_A AB_boom)"
    by (simp add: raising_def loop_defs)
  have h4: "isinstance_Exception (Exn ValueError ''boom'')" by simp
  have h5: "\<not> usage_limit (Exn ValueError ''boom'')" by (simp add: usage_limit_def)
  have l: "log (w_A AB_boom) = []" by (simp add: ex_defs AB_boom_def)
  from process_ordinary_exception_returns_None [OF h1 h2 h3 h4 h5] h1 l
  show ?thesis by (simp add: logging_def)
qed

text \<open>C1 as stated fails: with A returning 1 and B raising, \<^verbatim>\<open>process()\<close> returns
  \<^verbatim>\<open>None\<close>, not 1.\<close>

theorem process_last_result_counterexample:
  "map_option fst (run_A AB_boom) = Some (Inr PNone) \<and>
   map_option fst (run_A AB_boom) \<noteq> Some (Inr (PInt 1))"
proof -
  have "map_option fst (run_A AB_boom) = Some (Inr PNone)"
    unfolding run_A_def process_def
    apply (subst process_loop.simps)
    apply (simp add: ex_defs AB_boom_def raising_def loop_defs)
    apply (subst process_loop.simps)
    apply (simp add: ex_defs AB_boom_def raising_def loop_defs)
    done
  then show ?thesis by auto
qed

section \<open>A transition value of the wrong shape\<close>

text \<open>
  C2 (as the code has it). When a transition returns an object that is neither a string
  nor a tuple, the loop raises a \<^verbatim>\<open>ValueError\<close> ("next_state_func must return a string or a
  tuple (state_name, args_dict)") inside its own \<^verbatim>\<open>try\<close>; the \<^verbatim>\<open>except Exception\<close> clause
  catches it, logs it with the state's name, and \<^verbatim>\<open>process()\<close> returns \<^verbatim>\<open>None\<close> to the
  caller without raising.
\<close>

theorem wrong_shape_is_caught:
  assumes "run_steps n sm PNone (PDict []) w = Some (sm', p, x, w')"
    and "state sm' = Some (BaseState name act (Some f))"
    and "invoke_action act x (mach sm') w' = Some (Inr result, m1, w1)"
    and "f result m1 w1 = Some (Inr info, m2, w2)"
    and "\<not> is_PStr info" and "\<not> is_PTuple info"
  shows "decode_next_state (states sm') info = Inl shape_error \<and>
         process sm w =
           Some (Inr PNone, sm'\<lparr>mach := m2\<rparr>,
                 logging (LogTraceback ERROR shape_error)
                   (logging (LogText ERROR
                      (''Error in state '' @ quoted name @ '': '' @ msg shape_error)) w2))"
proof -
  have d: "decode_next_state (states sm') info = Inl shape_error"
    using assms(5,6) by (rule decode_wrong_shape)
  have t: "try_body (states sm') act (Some f) x (mach sm') w' = Some (Inl shape_error, m2, w2)"
    using assms(3,4) d by (simp add: try_body_def)
  have c: "isinstance_Exception shape_error" and u: "\<not> usage_limit shape_error"
    using shape_error_caught by simp_all
  have "process sm w = process_loop sm' p x w'"
    unfolding process_def using assms(1) by (rule process_run_steps)
  also have "\<dots> = Some (Inr PNone, sm'\<lparr>mach := m2\<rparr>, snd (except_clauses name shape_error w2))"
    using iteration_caught [OF assms(2) t c u] by (rule process_return)
  finally show ?thesis
    using d by (simp add: except_clauses_def shape_error_def)
qed

theorem wrong_shape_is_caught_witness:
  "\<not> is_PStr PNone \<and> \<not> is_PTuple PNone \<and>
   decode_next_state (states (sm_A (A_then PNone))) PNone = Inl shape_error \<and>
   map_option fst (process (sm_A (A_then PNone)) (w_A (A_then PNone))) = Some (Inr PNone)"
proof -
  let ?sm = "sm_A (A_then PNone)" and ?w = "w_A (A_then PNone)"
  have h1: "run_steps 0 ?sm PNone (PDict []) ?w = Some (?sm, PNone, PDict [], ?w)" by simp
  have h2: "state ?sm = Some (BaseState ''A'' (returning (PInt 1)) (Some (always PNone)))"
    by (simp add: ex_defs A_then_def)
  have h3: "invoke_action (returning (PInt 1)) (PDict []) (mach ?sm) ?w =
              Some (Inr (PInt 1), mach ?sm, ?w)"
    by (simp add: returning_def loop_defs)
  have h4: "always PNone (PInt 1) (mach ?sm) ?w = Some (Inr PNone, mach ?sm, ?w)"
    by (simp add: always_def)
  have h5: "\<not> is_PStr PNone" and h6: "\<not> is_PTuple PNone" by simp_all
  from wrong_shape_is_caught [OF h1 h2 h3 h4 h5 h6] show ?thesis by simp
qed

text \<open>C2 as stated fails: with a transition that returns \<^verbatim>\<open>None\<close>, \<^verbatim>\<open>process()\<close> returns
  \<^verbatim>\<open>None\<close>; the \<^verbatim>\<open>ValueError\<close> does not reach the caller.\<close>

theorem wrong_shape_counterexample:
  "map_option fst (run_A (A_then PNone)) = Some (Inr PNone) \<and>
   map_option fst (run_A (A_then PNone)) \<noteq> Some (Inl shape_error)"
proof -
  have "map_option fst (run_A (A_then PNone)) = Some (Inr PNone)"
    unfolding run_A_def process_def
    apply (subst process_loop.simps)
    apply (simp add: ex_defs A_then_def loop_defs)
    done
  then show ?thesis by auto
qed

section \<open>A transition to a state that is not registered\<close>

lemma decode_unknown:
  assumes "info = PStr s \<or> info = PTuple (PStr s # rest)" and "sts s = None"
  shows "\<exists>a. decode_next_state sts info = Inr (ExitState, a)"
  using assms by (auto simp: decode_next_state_def states_get_def split: list.splits)

text \<open>
  C3 (as the code has it). When a transition returns a state name that is not a key of the
  registry, as a string or as the first component of a tuple, \<^verbatim>\<open>process()\<close> does not
  raise: the lookup \<^verbatim>\<open>self.states.get(name, ExitState())\<close> yields an exit state, as it does
  for the name Exit, the next pass returns the result of the action just run, and the
  engine writes no log record (no warning): the world after \<^verbatim>\<open>process()\<close> is the one the
  transition left.
\<close>

theorem unknown_state_falls_back_to_Exit:
  assumes "run_steps n sm PNone (PDict []) w = Some (sm', p, x, w')"
    and "state sm' = Some (BaseState name act (Some f))"
    and "invoke_action act x (mach sm') w' = Some (Inr result, m1, w1)"
    and "f result m1 w1 = Some (Inr info, m2, w2)"
    and "info = PStr s \<or> info = PTuple (PStr s # rest)"
    and "states sm' s = None"
    and "states sm' ''Exit'' = None \<or> states sm' ''Exit'' = Some ExitState"
  shows "states_get (states sm') (PStr s) = states_get (states sm') (PStr ''Exit'') \<and>
         process sm w = Some (Inr result, sm'\<lparr>state := Some ExitState, mach := m2\<rparr>, w2)"
proof -
  have g: "states_get (states sm') (PStr s) = states_get (states sm') (PStr ''Exit'')"
    using assms(6,7) by (auto simp: states_get_def)
  from decode_unknown [of info s rest "states sm'"] assms(5,6) obtain a where
    d: "decode_next_state (states sm') info = Inr (ExitState, a)" by blast
  have t: "try_body (states sm') act (Some f) x (mach sm') w' =
             Some (Inr (ExitState, a, result), m2, w2)"
    using assms(3,4) d by (simp add: try_body_def)
  have i: "iteration sm' p x w' =
             Some (Next (sm'\<lparr>state := Some ExitState, mach := m2\<rparr>) result a w2)"
    using assms(2) t by (simp add: iteration_def)
  have "process sm w = process_loop sm' p x w'"
    unfolding process_def using assms(1) by (rule process_run_steps)
  also have "\<dots> = process_loop (sm'\<lparr>state := Some ExitState, mach := m2\<rparr>) result a w2"
    using i by (rule process_step)
  also have "\<dots> = Some (Inr result, sm'\<lparr>state := Some ExitState, mach := m2\<rparr>, w2)"
    by (rule process_return) (simp add: iteration_Exit)
  finally show ?thesis using g by simp
qed

theorem unknown_state_falls_back_to_Exit_witness:
  "states (sm_A (A_then (PStr ''Nowhere''))) ''Nowhere'' = None \<and>
   states (sm_A (A_then (PStr ''Nowhere''))) ''Exit'' = Some ExitState \<and>
   map_option fst (process (sm_A (A_then (PStr ''Nowhere''))) (w_A (A_then (PStr ''Nowhere''))))
     = Some (Inr (PInt 1))"
proof -
  let ?d = "A_then (PStr ''Nowhere'')"
  let ?sm = "sm_A ?d" and ?w = "w_A ?d"
  have h1: "run_steps 0 ?sm PNone (PDict []) ?w = Some (?sm, PNone, PDict [], ?w)" by simp
  have h2: "state ?sm =
              Some (BaseState ''A'' (returning (PInt 1)) (Some (always (PStr ''Nowhere''))))"
    by (simp add: ex_defs A_then_def)
  have h3: "invoke_action (returning (PInt 1)) (PDict []) (mach ?sm) ?w =
              Some (Inr (PInt 1), mach ?sm, ?w)"
    by (simp add: returning_def loop_defs)
  have h4: "always (PStr ''Nowhere'') (PInt 1) (mach ?sm) ?w =
              Some (Inr (PStr ''Nowhere''), mach ?sm, ?w)"
    by (simp add: always_def)
  have h5: "PStr ''Nowhere'' = PStr ''Nowhere'' \<or> PStr ''Nowhere'' = PTuple (PStr ''Nowhere'' # [])"
    by simp
  have h6: "states ?sm ''Nowhere'' = None" by (simp add: ex_defs A_then_def)
  have e: "states ?sm ''Exit'' = Some ExitState" by (simp add: ex_defs A_then_def)
  then have h7: "states ?sm ''Exit'' = None \<or> states ?sm ''Exit'' = Some ExitState" by simp
  from unknown_state_falls_back_to_Exit [OF h1 h2 h3 h4 h5 h6 h7] h6 e
  show ?thesis by simp
qed

text \<open>C3 as stated fails in its last part: after a transition to the unregistered name
  Nowhere, \<^verbatim>\<open>process()\<close> has returned 1 and the log is empty, so no warning was logged.\<close>

theorem unknown_state_warning_counterexample:
  "map_option fst (run_A (A_then (PStr ''Nowhere''))) = Some (Inr (PInt 1)) \<and>
   map_option (\<lambda>r. log (snd (snd r))) (run_A (A_then (PStr ''Nowhere''))) = Some []"
proof -
  have a: "map_option fst (run_A (A_then (PStr ''Nowhere''))) = Some (Inr (PInt 1))"
    unfolding run_A_def process_def
    apply (subst process_loop.simps)
    apply (simp add: ex_defs A_then_def loop_defs)
    apply (subst process_loop.simps)
    apply (simp add: ex_defs A_then_def loop_defs)
    done
  have b: "map_option (\<lambda>r. log (snd (snd r))) (run_A (A_then (PStr ''Nowhere''))) = Some []"
    unfolding run_A_def process_def
    apply (subst process_loop.simps)
    apply (simp add: ex_defs A_then_def loop_defs)
    apply (subst process_loop.simps)
    apply (simp add: ex_defs A_then_def loop_defs)
    done
  from a b show ?thesis by simp
qed

section \<open>Registries without an Exit entry\<close>

lemma create_states_loop_total:
  assumes "\<forall>(name, c) \<in> set defs. name \<noteq> ''Exit'' \<longrightarrow> cfg_action c \<noteq> None"
  shows "\<exists>sts. create_states_loop defs sts0 = Inr sts"
  using assms
proof (induction defs arbitrary: sts0)
  case Nil
  then show ?case by simp
next
  case (Cons d defs)
  obtain name c where d: "d = (name, c)" by (cases d)
  from Cons.prems have rest: "\<forall>(name, c) \<in> set defs. name \<noteq> ''Exit'' \<longrightarrow> cfg_action c \<noteq> None"
    by simp
  show ?case
  proof (cases "name = ''Exit''")
    case True
    with d Cons.IH [OF rest] show ?thesis by simp
  next
    case False
    with Cons.prems d obtain a where "cfg_action c = Some a" by auto
    with False d Cons.IH [OF rest] show ?thesis by simp
  qed
qed

lemma create_states_loop_dom:
  "create_states_loop defs sts0 = Inr sts \<Longrightarrow> dom sts = dom sts0 \<union> fst ` set defs"
proof (induction defs arbitrary: sts0)
  case Nil
  then show ?case by simp
next
  case (Cons d defs)
  obtain name c where d: "d = (name, c)" by (cases d)
  show ?case
  proof (cases "name = ''Exit''")
    case True
    with Cons.prems d have "create_states_loop defs (sts0(name \<mapsto> ExitState)) = Inr sts"
      by simp
    from Cons.IH [OF this] d show ?thesis by auto
  next
    case False
    with Cons.prems d obtain a where
      "create_states_loop defs (sts0(name \<mapsto> BaseState name a (cfg_next_state_func c))) = Inr sts"
      by (auto split: option.splits)
    from Cons.IH [OF this] d show ?thesis by auto
  qed
qed

lemma create_states_loop_Exit:
  "create_states_loop defs sts0 = Inr sts \<Longrightarrow>
   sts0 ''Exit'' = None \<or> sts0 ''Exit'' = Some ExitState \<Longrightarrow>
   sts ''Exit'' = None \<or> sts ''Exit'' = Some ExitState"
proof (induction defs arbitrary: sts0)
  case Nil
  then show ?case by simp
next
  case (Cons d defs)
  obtain name c where d: "d = (name, c)" by (cases d)
  show ?case
  proof (cases "name = ''Exit''")
    case True
    with Cons.prems(1) d have "create_states_loop defs (sts0(name \<mapsto> ExitState)) = Inr sts"
      by simp
    from Cons.IH [OF this] True show ?thesis by simp
  next
    case False
    with Cons.prems(1) d obtain a where
      "create_states_loop defs (sts0(name \<mapsto> BaseState name a (cfg_next_state_func c))) = Inr sts"
      by (auto split: option.splits)
    from Cons.IH [OF this] False Cons.prems(2) show ?thesis by simp
  qed
qed

lemma create_states_Exit:
  "create_states defs = Inr sts \<Longrightarrow> states_get sts (PStr ''Exit'') = Inr ExitState"
  using create_states_loop_Exit [of defs Map.empty sts]
  by (auto simp: create_states_def states_get_def)

text \<open>
  C7 (as the code has it). The constructor looks at the registry in one way only: the
  initial state must be one of its keys, else it raises the \<^verbatim>\<open>ValueError\<close> "Initial state
  ... is not defined in state_definitions.". When the configuration and the model manager
  load and every entry other than Exit has an action, construction succeeds for every
  registry that holds the initial state, with or without an Exit entry; a later lookup
  of the name Exit gives an exit state in both cases.
\<close>

theorem constructor_checks_initial_state_only:
  assumes "model_manager ev path = Inr (Inr cl)"
    and "load_config_of ev path = Inr cfg"
    and "\<forall>(name, c) \<in> set defs. name \<noteq> ''Exit'' \<longrightarrow> cfg_action c \<noteq> None"
  shows "(initial \<in> fst ` set defs \<longrightarrow>
            (\<exists>sm. fst (StateMachine_init ev context defs initial path mode req w) = Inr sm \<and>
                  states_get (states sm) (PStr ''Exit'') = Inr ExitState)) \<and>
         (initial \<notin> fst ` set defs \<longrightarrow>
            fst (StateMachine_init ev context defs initial path mode req w) =
              Inl (initial_state_error initial))"
proof -
  from create_states_loop_total [OF assms(3)] obtain sts where
    c: "create_states defs = Inr sts" unfolding create_states_def by blast
  from create_states_loop_dom [of defs Map.empty sts] c
  have dom: "dom sts = fst ` set defs" by (simp add: create_states_def)
  have ex: "states_get sts (PStr ''Exit'') = Inr ExitState"
    using c by (rule create_states_Exit)
  show ?thesis
  proof (cases "sts initial")
    case None
    then have "initial \<notin> fst ` set defs" using dom by auto
    then show ?thesis
      using None c assms(1,2)
      by (simp add: StateMachine_init_def split: prod.splits option.splits)
  next
    case (Some st)
    then have "initial \<in> fst ` set defs" using dom by auto
    then show ?thesis
      using Some c ex assms(1,2)
      by (simp add: StateMachine_init_def split: prod.splits option.splits)
  qed
qed

theorem constructor_checks_initial_state_only_witness:
  "''Exit'' \<notin> fst ` set only_A \<and> ''A'' \<in> fst ` set only_A \<and>
   (\<exists>sm. fst (machine_A only_A) = Inr sm \<and>
         states_get (states sm) (PStr ''Exit'') = Inr ExitState)"
proof -
  have h1: "model_manager ex_env [] = Inr (Inr [])" by (simp add: ex_env_def)
  have h2: "load_config_of ex_env [] =
              Inr \<lparr>config_path = ''BaseMachine/../.config/config.json'', top_p = PInt 1\<rparr>"
    by (simp add: load_config_of_def ex_env_def)
  have h3: "\<forall>(name, c) \<in> set only_A. name \<noteq> ''Exit'' \<longrightarrow> cfg_action c \<noteq> None"
    by (simp add: only_A_def entry_def)
  have h4: "''A'' \<in> fst ` set only_A" by (simp add: only_A_def entry_def)
  have h5: "''Exit'' \<notin> fst ` set only_A" by (simp add: only_A_def entry_def)
  from constructor_checks_initial_state_only
         [OF h1 h2 h3, of "''A''" ex_context "''action''" True w0] h4 h5
  show ?thesis by (simp add: machine_A_def)
qed

text \<open>C7 as stated fails: over a registry with the single state A and no Exit entry the
  constructor returns a machine, and \<^verbatim>\<open>process()\<close> on it returns 1.\<close>

theorem missing_Exit_counterexample:
  "''Exit'' \<notin> fst ` set only_A \<and> \<not> isl (fst (machine_A only_A)) \<and>
   map_option fst (run_A only_A) = Some (Inr (PInt 1))"
proof -
  have a: "''Exit'' \<notin> fst ` set only_A" by (simp add: only_A_def entry_def)
  have b: "\<not> isl (fst (machine_A only_A))" by (simp add: ex_defs only_A_def)
  have c: "map_option fst (run_A only_A) = Some (Inr (PInt 1))"
    unfolding run_A_def process_def
    apply (subst process_loop.simps)
    apply (simp add: ex_defs only_A_def loop_defs)
    apply (subst process_loop.simps)
    apply (simp add: ex_defs only_A_def loop_defs)
    done
  from a b c show ?thesis by simp
qed

section \<open>The choice of calling convention\<close>

text \<open>
  C9 at a failing input. The action of B declares the machine parameter only but has a
  local variable, so \<^verbatim>\<open>co_varnames\<close> has two names and the loop passes the pending
  arguments \<^verbatim>\<open>{'x': 1}\<close> as keywords: the call raises a \<^verbatim>\<open>TypeError\<close>, which the loop catches,
  and \<^verbatim>\<open>process()\<close> returns \<^verbatim>\<open>None\<close>. The same registry with an action of B that has no
  local variable calls it with the machine alone, and \<^verbatim>\<open>process()\<close> returns its result 2.
\<close>

theorem local_variable_selects_keyword_call:
  "arg_names with_local = [''machine''] \<and>
   co_varnames with_local = [''machine'', ''tmp''] \<and>
   map_option fst (run_A (AB_args with_local)) = Some (Inr PNone) \<and>
   map_option (\<lambda>r. log (snd (snd r))) (run_A (AB_args with_local)) =
     Some [LogText ERROR
             (''Error in state '' @ quoted ''B'' @ '': got an unexpected keyword argument''),
           LogTraceback ERROR (Exn TypeError ''got an unexpected keyword argument'')] \<and>
   map_option fst (run_A (AB_args (returning (PInt 2)))) = Some (Inr (PInt 2))"
proof -
  have a: "arg_names with_local = [''machine'']" by (simp add: with_local_def)
  have b: "co_varnames with_local = [''machine'', ''tmp'']"
    by (simp add: with_local_def co_varnames_def)
  have c: "map_option fst (run_A (AB_args with_local)) = Some (Inr PNone)"
    unfolding run_A_def process_def
    apply (subst process_loop.simps)
    apply (simp add: ex_defs AB_args_def with_local_def loop_defs)
    apply (subst process_loop.simps)
    apply (simp add: ex_defs AB_args_def with_local_def loop_defs)
    done
  have c': "map_option (\<lambda>r. log (snd (snd r))) (run_A (AB_args with_local)) =
             Some [LogText ERROR
                     (''Error in state '' @ quoted ''B'' @ '': got an unexpected keyword argument''),
                   LogTraceback ERROR (Exn TypeError ''got an unexpected keyword argument'')]"
    unfolding run_A_def process_def
    apply (subst process_loop.simps)
    apply (simp add: ex_defs AB_args_def with_local_def loop_defs)
    apply (subst process_loop.simps)
    apply (simp add: ex_defs AB_args_def with_local_def loop_defs)
    done
  have d: "map_option fst (run_A (AB_args (returning (PInt 2)))) = Some (Inr (PInt 2))"
    unfolding run_A_def process_def
    apply (subst process_loop.simps)
    apply (simp add: ex_defs AB_args_def loop_defs)
    apply (subst process_loop.simps)
    apply (simp add: ex_defs AB_args_def loop_defs)
    apply (subst process_loop.simps)
    apply (simp add: ex_defs AB_args_def loop_defs)
    done
  from a b c c' d show ?thesis by simp
qed

section \<open>Sub-machines: merging and the save option\<close>

text \<open>
  C4. When the sub-machine's \<^verbatim>\<open>process()\<close> has returned, the action that called it returns
  (or raises on an invalid save option) with the merge done once: the caller's token
  counters are its old ones plus the sub-machine's, its message list is its old contents
  followed by the sub-machine's messages, and no other list has changed. On the numbers
  of the specification: counters 2 and 3 with messages \<open>[x]\<close>, merged with counters 5 and 7
  and messages \<open>[a, b]\<close>, give 7, 10 and \<open>[x, a, b]\<close>, and the sub-machine's list is kept.
\<close>

theorem sub_machine_merge:
  assumes "sub_context_cls kwargs w = (Inr sc, w1)"
    and "StateMachine_init ev sc defs initial (config_path (config m)) ''chat'' True w1 =
           (Inr sub, w2)"
    and "process sub w2 = Some (Inr r, sub', w3)"
  shows "(case sub_state_machine_action ev defs initial sub_context_cls save_option kwargs m w of
            None \<Rightarrow> False
          | Some (out, m', w') \<Rightarrow>
              total_input_tokens m' = total_input_tokens m + total_input_tokens (mach sub') \<and>
              total_output_tokens m' = total_output_tokens m + total_output_tokens (mach sub') \<and>
              messages m' = messages m \<and>
              lists w' (messages m) = lists w3 (messages m) @ lists w3 (messages (mach sub')) \<and>
              (\<forall>r. r \<noteq> messages m \<longrightarrow> lists w' r = lists w3 r)) \<and>
         (let (m', w') =
                merge_resources
                  (m\<lparr>total_input_tokens := 2, total_output_tokens := 3, messages := 0\<rparr>)
                  (c\<lparr>total_input_tokens := 5, total_output_tokens := 7, messages := 1\<rparr>)
                  (w\<lparr>lists := (lists w)(0 := [x], 1 := [a, b])\<rparr>)
          in total_input_tokens m' = 7 \<and> total_output_tokens m' = 10 \<and>
             lists w' (messages m') = [x, a, b] \<and> lists w' 1 = [a, b])"
proof -
  have a: "case sub_state_machine_action ev defs initial sub_context_cls save_option kwargs m w of
             None \<Rightarrow> False
           | Some (out, m', w') \<Rightarrow>
               total_input_tokens m' = total_input_tokens m + total_input_tokens (mach sub') \<and>
               total_output_tokens m' = total_output_tokens m + total_output_tokens (mach sub') \<and>
               messages m' = messages m \<and>
               lists w' (messages m) = lists w3 (messages m) @ lists w3 (messages (mach sub')) \<and>
               (\<forall>r. r \<noteq> messages m \<longrightarrow> lists w' r = lists w3 r)"
    using assms
    by (simp add: sub_state_machine_action_def merge_resources_def sub_save_def list_extend_def)
  have b: "let (m', w') =
                merge_resources
                  (m\<lparr>total_input_tokens := 2, total_output_tokens := 3, messages := 0\<rparr>)
                  (c\<lparr>total_input_tokens := 5, total_output_tokens := 7, messages := 1\<rparr>)
                  (w\<lparr>lists := (lists w)(0 := [x], 1 := [a, b])\<rparr>)
          in total_input_tokens m' = 7 \<and> total_output_tokens m' = 10 \<and>
             lists w' (messages m') = [x, a, b] \<and> lists w' 1 = [a, b]"
    by (simp add: merge_resources_def list_extend_def)
  from a b show ?thesis by simp
qed

lemma sub_spend_built:
  "StateMachine_init ex_env ex_context sub_spend ''A'' (config_path (config ex_machine))
     ''chat'' True w_x =
   (Inr \<lparr>state = Some (BaseState ''A'' spend (Some (always (PStr ''Exit'')))),
         states = [''A'' \<mapsto> BaseState ''A'' spend (Some (always (PStr ''Exit''))),
                   ''Exit'' \<mapsto> ExitState],
         mach = \<lparr>ctxt = ex_context,
                 config = \<lparr>config_path = ''BaseMachine/../.config/config.json'', top_p = PInt 1\<rparr>,
                 clients = [], agent_results = [], analysis_result = [], messages = Suc 0,
                 total_input_tokens = 0, total_output_tokens = 0\<rparr>\<rparr>,
    w_x\<lparr>lists := (lists w_x)(Suc 0 := []), next_ref := 2\<rparr>)"
  by (simp add: StateMachine_init_def load_config_of_def ex_env_def ex_context_def
        ex_machine_def sub_spend_def entry_def exit_entry_def create_states_def new_list_def
        w_x_def)

theorem sub_machine_merge_witness:
  "(case sub_state_machine_action ex_env sub_spend ''A'' fresh_context ''result'' []
           ex_machine w_x of
      None \<Rightarrow> False
    | Some (out, m', w') \<Rightarrow>
        out = Inr (PInt 1) \<and> total_input_tokens m' = 7 \<and> total_output_tokens m' = 10 \<and>
        lists w' (messages m') = [PStr ''x'', PStr ''a'', PStr ''b''])"
proof -
  let ?B = "BaseState ''A'' spend (Some (always (PStr ''Exit'')))"
  let ?sub = "\<lparr>state = Some ?B, states = [''A'' \<mapsto> ?B, ''Exit'' \<mapsto> ExitState],
               mach = \<lparr>ctxt = ex_context,
                 config = \<lparr>config_path = ''BaseMachine/../.config/config.json'', top_p = PInt 1\<rparr>,
                 clients = [], agent_results = [], analysis_result = [], messages = Suc 0,
                 total_input_tokens = 0, total_output_tokens = 0\<rparr>\<rparr>"
  let ?w2 = "w_x\<lparr>lists := (lists w_x)(Suc 0 := []), next_ref := 2\<rparr>"
  let ?sub' = "?sub\<lparr>state := Some ExitState,
                 mach := (mach ?sub)\<lparr>total_input_tokens := 5, total_output_tokens := 7\<rparr>\<rparr>"
  let ?w3 = "?w2\<lparr>lists := (lists ?w2)(Suc 0 := [PStr ''a'', PStr ''b''])\<rparr>"
  have h1: "fresh_context [] w_x = (Inr ex_context, w_x)" by (simp add: fresh_context_def)
  have h2: "StateMachine_init ex_env ex_context sub_spend ''A''
              (config_path (config ex_machine)) ''chat'' True w_x = (Inr ?sub, ?w2)"
    by (rule sub_spend_built)
  have h3: "process ?sub ?w2 = Some (Inr (PInt 1), ?sub', ?w3)"
    unfolding process_def
    apply (subst process_loop.simps)
    apply (simp add: loop_defs spend_def always_def list_append_def)
    apply (subst process_loop.simps)
    apply (simp add: loop_defs)
    done
  have v: "sub_state_machine_action ex_env sub_spend ''A'' fresh_context ''result'' []
             ex_machine w_x =
           Some (Inr (PInt 1),
                 (fst (merge_resources ex_machine (mach ?sub') ?w3))
                   \<lparr>analysis_result := analysis_result ex_machine @ [SavedValue (PInt 1)]\<rparr>,
                 snd (merge_resources ex_machine (mach ?sub') ?w3))"
    by (simp add: sub_state_machine_action_def h1 h2 h3 sub_save_def merge_resources_def)
  from sub_machine_merge
         [where sub_context_cls = fresh_context and kwargs = "[]" and w = w_x and m = ex_machine
            and save_option = "''result''", OF h1 h2 h3]
  show ?thesis
    unfolding v by (simp add: merge_resources_def list_extend_def ex_machine_def w_x_def)
qed

text \<open>
  C8 at a failing input. \<^verbatim>\<open>sub_state_machine_action\<close> has no branch for the save option
  \<^verbatim>\<open>none\<close>, which its docstring lists and \<^verbatim>\<open>chat_action\<close> accepts: after the sub-machine has
  run and the counters are merged (2 + 5 and 3 + 7 here), the action raises the
  \<^verbatim>\<open>ValueError\<close> "Invalid save_option value".
\<close>

theorem save_option_none_rejected_by_composer:
  "chat_save ''none'' prompt v m = Inr m \<and>
   sub_save ''none'' sc v m = Inl invalid_save_option \<and>
   map_option (\<lambda>(out, m', w'). (out, total_input_tokens m', total_output_tokens m'))
     (sub_state_machine_action ex_env sub_spend ''A'' fresh_context ''none'' [] ex_machine w_x)
     = Some (Inl invalid_save_option, 7, 10)"
proof -
  have a: "chat_save ''none'' prompt v m = Inr m" by (simp add: chat_save_def)
  have b: "sub_save ''none'' sc v m = Inl invalid_save_option" by (simp add: sub_save_def)
  have c: "map_option (\<lambda>(out, m', w'). (out, total_input_tokens m', total_output_tokens m'))
     (sub_state_machine_action ex_env sub_spend ''A'' fresh_context ''none'' [] ex_machine w_x)
     = Some (Inl invalid_save_option, 7, 10)"
    unfolding sub_state_machine_action_def process_def
    apply (simp add: fresh_context_def sub_spend_built)
    apply (subst process_loop.simps)
    apply (simp add: loop_defs spend_def always_def list_append_def)
    apply (subst process_loop.simps)
    apply (simp add: loop_defs merge_resources_def sub_save_def ex_machine_def)
    done
  from a b c show ?thesis by simp
qed

section \<open>The usage-limit error\<close>

lemma loop_raises_usage_limit:
  assumes "run_steps n sm PNone (PDict []) w = Some (sm', p, x, w')"
    and "state sm' = Some (BaseState name act nsf)"
    and "invoke_action act x (mach sm') w' = Some (Inl e, m'', w'')"
    and "usage_limit e"
  shows "process sm w =
           Some (Inl e, sm'\<lparr>mach := m''\<rparr>,
                 logging (LogText ERROR
                    (''Claude AI usage limit reached in state '' @ quoted name)) w'')"
proof -
  have t: "try_body (states sm') act nsf x (mach sm') w' = Some (Inl e, m'', w'')"
    using assms(3) by (simp add: try_body_def)
  have "process sm w = process_loop sm' p x w'"
    unfolding process_def using assms(1) by (rule process_run_steps)
  also have "\<dots> = Some (Inl e, sm'\<lparr>mach := m''\<rparr>,
                 logging (LogText ERROR
                    (''Claude AI usage limit reached in state '' @ quoted name)) w'')"
    using iteration_usage_limit [OF assms(2) t assms(4)] by (rule process_raise)
  finally show ?thesis .
qed

lemma composer_passes_exception_on:
  assumes "sub_context_cls kwargs w = (Inr sc, w1)"
    and "StateMachine_init ev sc defs initial (config_path (config m)) ''chat'' True w1 =
           (Inr sub, w2)"
    and "process sub w2 = Some (Inl e, sub', w3)"
  shows "sub_state_machine_action ev defs initial sub_context_cls save_option kwargs m w =
           Some (Inl e, m, w3)"
  using assms by (simp add: sub_state_machine_action_def)

lemma agent_action_reraises:
  assumes "prompt_template kwargs = Inr prompt" and "ctx_get (ctxt m)"
    and "run_query (fst (query prompt)) (snd (query prompt)) ([], []) w = (Inl e, w1)"
  shows "agent_action prompt_template response_parser query kwargs m w =
           Some (Inl e, m, agent_except e w1)"
  using assms by (simp add: agent_action_def)

text \<open>
  C6. An exception that is a \<^verbatim>\<open>RuntimeError\<close> whose text contains "Claude AI usage limit
  reached" leaves every layer as the same exception. In the loop: when the action of the
  current state raises it, \<^verbatim>\<open>process()\<close> raises it (after one log record), and returns no
  result. In the sub-machine action: when the sub-machine's \<^verbatim>\<open>process()\<close> raises an
  exception, the action raises that exception, with no merge and nothing saved. In the
  agent action: an exception raised while the agent runs is logged and raised again.
\<close>

theorem usage_limit_propagates:
  "(run_steps n sm PNone (PDict []) w = Some (sm', p, x, w') \<longrightarrow>
    state sm' = Some (BaseState name act nsf) \<longrightarrow>
    invoke_action act x (mach sm') w' = Some (Inl e, m'', w'') \<longrightarrow>
    usage_limit e \<longrightarrow>
    process sm w =
      Some (Inl e, sm'\<lparr>mach := m''\<rparr>,
            logging (LogText ERROR
               (''Claude AI usage limit reached in state '' @ quoted name)) w'')) \<and>
   (sub_context_cls kwargs cw = (Inr sc, cwa) \<longrightarrow>
    StateMachine_init ev sc defs initial (config_path (config m)) ''chat'' True cwa =
      (Inr sub, cwb) \<longrightarrow>
    process sub cwb = Some (Inl e, sub', cwc) \<longrightarrow>
    sub_state_machine_action ev defs initial sub_context_cls save_option kwargs m cw =
      Some (Inl e, m, cwc)) \<and>
   (prompt_template akwargs = Inr prompt \<longrightarrow> ctx_get (ctxt am) \<longrightarrow>
    run_query (fst (query prompt)) (snd (query prompt)) ([], []) aw = (Inl e, awa) \<longrightarrow>
    agent_action prompt_template response_parser query akwargs am aw =
      Some (Inl e, am, agent_except e awa))"
proof (intro conjI impI)
  assume "run_steps n sm PNone (PDict []) w = Some (sm', p, x, w')"
    and "state sm' = Some (BaseState name act nsf)"
    and "invoke_action act x (mach sm') w' = Some (Inl e, m'', w'')"
    and "usage_limit e"
  then show "process sm w =
      Some (Inl e, sm'\<lparr>mach := m''\<rparr>,
            logging (LogText ERROR
               (''Claude AI usage limit reached in state '' @ quoted name)) w'')"
    by (rule loop_raises_usage_limit)
next
  assume "sub_context_cls kwargs cw = (Inr sc, cwa)"
    and "StateMachine_init ev sc defs initial (config_path (config m)) ''chat'' True cwa =
           (Inr sub, cwb)"
    and "process sub cwb = Some (Inl e, sub', cwc)"
  then show "sub_state_machine_action ev defs initial sub_context_cls save_option kwargs m cw =
      Some (Inl e, m, cwc)"
    by (rule composer_passes_exception_on)
next
  assume "prompt_template akwargs = Inr prompt" and "ctx_get (ctxt am)"
    and "run_query (fst (query prompt)) (snd (query prompt)) ([], []) aw = (Inl e, awa)"
  then show "agent_action prompt_template response_parser query akwargs am aw =
      Some (Inl e, am, agent_except e awa)"
    by (rule agent_action_reraises)
qed

lemma sub_capped_built:
  "StateMachine_init ex_env ex_context sub_capped ''A'' (config_path (config ex_machine))
     ''chat'' True w_x =
   (Inr \<lparr>state = Some (BaseState ''A'' capped_agent (Some (always (PStr ''Exit'')))),
         states = [''A'' \<mapsto> BaseState ''A'' capped_agent (Some (always (PStr ''Exit''))),
                   ''Exit'' \<mapsto> ExitState],
         mach = \<lparr>ctxt = ex_context,
                 config = \<lparr>config_path = ''BaseMachine/../.config/config.json'', top_p = PInt 1\<rparr>,
                 clients = [], agent_results = [], analysis_result = [], messages = Suc 0,
                 total_input_tokens = 0, total_output_tokens = 0\<rparr>\<rparr>,
    w_x\<lparr>lists := (lists w_x)(Suc 0 := []), next_ref := 2\<rparr>)"
  by (simp add: StateMachine_init_def load_config_of_def ex_env_def ex_context_def
        ex_machine_def sub_capped_def entry_def exit_entry_def create_states_def new_list_def
        w_x_def)

text \<open>The three layers at one run: an agent action meets the usage-limit text, inside a
  sub-machine, called from the machine \<open>ex_machine\<close>.\<close>

theorem usage_limit_propagates_witness:
  "usage_limit (Exn RuntimeError ''Claude AI usage limit reached'') \<and>
   map_option fst
     (agent_action (\<lambda>kwargs. Inr ''go'') None
        (\<lambda>prompt. ([AssistantMessage [TextBlock ''Claude AI usage limit reached'']], None))
        [] ex_machine w_x)
     = Some (Inl (Exn RuntimeError ''Claude AI usage limit reached'')) \<and>
   map_option fst
     (process (projr (fst (StateMachine_init ex_env ex_context sub_capped ''A''
                 (config_path (config ex_machine)) ''chat'' True w_x)))
        (snd (StateMachine_init ex_env ex_context sub_capped ''A''
                 (config_path (config ex_machine)) ''chat'' True w_x)))
     = Some (Inl (Exn RuntimeError ''Claude AI usage limit reached'')) \<and>
   map_option fst
     (sub_state_machine_action ex_env sub_capped ''A'' fresh_context ''result'' []
        ex_machine w_x)
     = Some (Inl (Exn RuntimeError ''Claude AI usage limit reached''))"
proof -
  let ?e = "Exn RuntimeError ''Claude AI usage limit reached''"
  let ?template = "\<lambda>kwargs :: (string \<times> pyval) list. Inr ''go'' :: exn + string"
  let ?query = "\<lambda>prompt :: string.
                  ([AssistantMessage [TextBlock ''Claude AI usage limit reached'']],
                   None :: exn option)"
  let ?A = "BaseState ''A'' capped_agent (Some (always (PStr ''Exit'')))"
  let ?sub = "\<lparr>state = Some ?A, states = [''A'' \<mapsto> ?A, ''Exit'' \<mapsto> ExitState],
               mach = \<lparr>ctxt = ex_context,
                 config = \<lparr>config_path = ''BaseMachine/../.config/config.json'', top_p = PInt 1\<rparr>,
                 clients = [], agent_results = [], analysis_result = [], messages = Suc 0,
                 total_input_tokens = 0, total_output_tokens = 0\<rparr>\<rparr>"
  let ?w2 = "w_x\<lparr>lists := (lists w_x)(Suc 0 := []), next_ref := 2\<rparr>"
  let ?stop = "LogText ERROR ''Claude AI usage limit reached - stopping pipeline''"
  let ?w3 = "logging (LogText ERROR (''Claude AI usage limit reached in state '' @ quoted ''A''))
               (agent_except ?e (logging ?stop ?w2))"
  note usage_limit_propagates
    [where n = 0 and sm = ?sub and w = ?w2 and sm' = ?sub and p = PNone and x = "PDict []"
       and w' = ?w2 and name = "''A''" and act = capped_agent
       and nsf = "Some (always (PStr ''Exit''))" and e = ?e and m'' = "mach ?sub"
       and w'' = "agent_except ?e (logging ?stop ?w2)"
       and sub_context_cls = fresh_context and kwargs = "[]" and cw = w_x
       and sc = ex_context and cwa = w_x and ev = ex_env and defs = sub_capped
       and initial = "''A''" and m = ex_machine and sub = ?sub and cwb = ?w2
       and sub' = "?sub\<lparr>mach := mach ?sub\<rparr>" and cwc = ?w3 and save_option = "''result''"
       and prompt_template = ?template and akwargs = "[]" and prompt = "''go''"
       and query = ?query and aw = w_x and awa = "logging ?stop w_x" and am = ex_machine
       and response_parser = None]
  then have
    loop: "run_steps 0 ?sub PNone (PDict []) ?w2 = Some (?sub, PNone, PDict [], ?w2) \<longrightarrow>
           state ?sub = Some ?A \<longrightarrow>
           invoke_action capped_agent (PDict []) (mach ?sub) ?w2 =
             Some (Inl ?e, mach ?sub, agent_except ?e (logging ?stop ?w2)) \<longrightarrow>
           usage_limit ?e \<longrightarrow>
           process ?sub ?w2 = Some (Inl ?e, ?sub\<lparr>mach := mach ?sub\<rparr>, ?w3)" and
    comp: "fresh_context [] w_x = (Inr ex_context, w_x) \<longrightarrow>
           StateMachine_init ex_env ex_context sub_capped ''A''
             (config_path (config ex_machine)) ''chat'' True w_x = (Inr ?sub, ?w2) \<longrightarrow>
           process ?sub ?w2 = Some (Inl ?e, ?sub\<lparr>mach := mach ?sub\<rparr>, ?w3) \<longrightarrow>
           sub_state_machine_action ex_env sub_capped ''A'' fresh_context ''result'' []
             ex_machine w_x = Some (Inl ?e, ex_machine, ?w3)" and
    agent: "?template [] = Inr ''go'' \<longrightarrow> ctx_get (ctxt ex_machine) \<longrightarrow>
            run_query (fst (?query ''go'')) (snd (?query ''go'')) ([], []) w_x =
              (Inl ?e, logging ?stop w_x) \<longrightarrow>
            agent_action ?template None ?query [] ex_machine w_x =
              Some (Inl ?e, ex_machine, agent_except ?e (logging ?stop w_x))"
    by blast+
  have u: "usage_limit ?e" by (simp add: usage_limit_def usage_limit_marker_def)
  have q: "\<And>w. run_query (fst (?query ''go'')) (snd (?query ''go'')) ([], []) w =
             (Inl ?e, logging ?stop w)"
    by (simp add: usage_limit_marker_def)
  have i: "invoke_action capped_agent (PDict []) (mach ?sub) ?w2 =
             Some (Inl ?e, mach ?sub, agent_except ?e (logging ?stop ?w2))"
    by (simp add: invoke_action_def co_varnames_def call_action_def bind_kwargs_def
          capped_agent_def create_agent_action_def agent_action_def usage_limit_marker_def
          ex_context_def)
  have b: "StateMachine_init ex_env ex_context sub_capped ''A''
             (config_path (config ex_machine)) ''chat'' True w_x = (Inr ?sub, ?w2)"
    by (rule sub_capped_built)
  have f: "fresh_context [] w_x = (Inr ex_context, w_x)" by (simp add: fresh_context_def)
  have p: "process ?sub ?w2 = Some (Inl ?e, ?sub\<lparr>mach := mach ?sub\<rparr>, ?w3)"
    using loop i u by simp
  have c: "sub_state_machine_action ex_env sub_capped ''A'' fresh_context ''result'' []
             ex_machine w_x = Some (Inl ?e, ex_machine, ?w3)"
    using comp f b p by blast
  have g: "ctx_get (ctxt ex_machine)" by (simp add: ex_machine_def ex_context_def)
  have a: "agent_action ?template None ?query [] ex_machine w_x =
             Some (Inl ?e, ex_machine, agent_except ?e (logging ?stop w_x))"
    using agent q g by simp
  show ?thesis
    unfolding b using u p c a by simp
qed

section \<open>Retries of the request\<close>











section \<open>The message list shared with the context\<close>

lemma extends_refl [simp]: "extends m w m w"
  by (simp add: extends_def)

lemma extends_trans: "extends m w m1 w1 \<Longrightarrow> extends m1 w1 m2 w2 \<Longrightarrow> extends m w m2 w2"
  by (auto simp: extends_def)

lemma extends_logging [simp]: "extends m w m (logging r w)"
  by (simp add: extends_def logging_def)

lemma extends_list_append [simp]: "extends m w m (list_append r v w)"
  by (simp add: extends_def list_append_def)

lemma extends_except_clauses [simp]: "extends m w m (snd (except_clauses name e w))"
  by (simp add: extends_def except_clauses_def logging_def)

lemma call_action_extends:
  assumes "\<forall>kvs m w out m' w'. body a kvs m w = Some (out, m', w') \<longrightarrow> extends m w m' w'"
    and "call_action a kw m w = Some (out, m', w')"
  shows "extends m w m' w'"
  using assms by (auto simp: call_action_def split: sum.splits)

lemma invoke_action_extends:
  assumes "\<forall>kvs m w out m' w'. body a kvs m w = Some (out, m', w') \<longrightarrow> extends m w m' w'"
    and "invoke_action a x m w = Some (out, m', w')"
  shows "extends m w m' w'"
  using assms(2) call_action_extends [OF assms(1)]
  by (auto simp: invoke_action_def split: if_splits)

lemma try_body_extends:
  assumes "appending (BaseState name a nsf)"
    and "try_body sts a nsf x m w = Some (out, m', w')"
  shows "extends m w m' w'"
proof -
  from assms(1) have
    b: "\<forall>kvs m w out m' w'. body a kvs m w = Some (out, m', w') \<longrightarrow> extends m w m' w'"
    by (simp add: appending_def)
  from assms(2) obtain o1 m1 w1 where
    i: "invoke_action a x m w = Some (o1, m1, w1)"
    by (auto simp: try_body_def split: option.splits)
  have e1: "extends m w m1 w1" using b i by (rule invoke_action_extends)
  show ?thesis
  proof (cases o1)
    case (Inl e)
    with assms(2) i e1 show ?thesis by (simp add: try_body_def)
  next
    case (Inr result)
    show ?thesis
    proof (cases nsf)
      case None
      with assms(2) i Inr e1 show ?thesis by (simp add: try_body_def)
    next
      case (Some f)
      with assms(2) i Inr obtain o2 where f: "f result m1 w1 = Some (o2, m', w')"
        by (auto simp: try_body_def split: option.splits sum.splits)
      from assms(1) Some f have "extends m1 w1 m' w'"
        by (auto simp: appending_def)
      with e1 show ?thesis by (rule extends_trans)
    qed
  qed
qed

lemma try_body_next_state:
  assumes "try_body sts a nsf x m w = Some (Inr (st, x', result), m', w')"
  shows "st = ExitState \<or> st \<in> ran sts"
proof -
  from assms obtain info where "decode_next_state sts info = Inr (st, x')"
    by (auto simp: try_body_def split: option.splits sum.splits prod.splits)
  then show ?thesis
    by (auto simp: decode_next_state_def states_get_def ran_def
             split: pyval.splits list.splits if_splits option.splits sum.splits)
qed

lemma iteration_extends:
  assumes "\<forall>st \<in> ran (states sm). appending st"
    and "state_registered sm"
    and "iteration sm p x w = Some s"
  shows "case s of
           Next sm' p' x' w' \<Rightarrow>
             states sm' = states sm \<and> state_registered sm' \<and> extends (mach sm) w (mach sm') w'
         | Return v sm' w' \<Rightarrow> extends (mach sm) w (mach sm') w'
         | Raise e sm' w' \<Rightarrow> extends (mach sm) w (mach sm') w'"
proof (cases "state sm")
  case None
  with assms(3) show ?thesis by (auto simp: iteration_def)
next
  case (Some st)
  show ?thesis
  proof (cases st)
    case ExitState
    with Some assms(3) show ?thesis by (auto simp: iteration_def)
  next
    case (BaseState name a nsf)
    with Some assms(1,2) have ap: "appending (BaseState name a nsf)"
      by (auto simp: state_registered_def)
    from assms(3) Some BaseState obtain r m' w' where
      t: "try_body (states sm) a nsf x (mach sm) w = Some (r, m', w')"
      by (auto simp: iteration_def split: option.splits)
    have e: "extends (mach sm) w m' w'" using ap t by (rule try_body_extends)
    show ?thesis
    proof (cases r)
      case (Inl ex)
      have "extends m' w' m' (snd (except_clauses name ex w'))" by simp
      with e have "extends (mach sm) w m' (snd (except_clauses name ex w'))"
        by (rule extends_trans)
      with assms(3) Some BaseState t Inl show ?thesis
        by (auto simp: iteration_def split: prod.splits bool.splits)
    next
      case (Inr nx)
      obtain st' x' result where nx: "nx = (st', x', result)" by (cases nx)
      from t Inr nx have "st' = ExitState \<or> st' \<in> ran (states sm)"
        by (auto dest: try_body_next_state)
      with assms(3) Some BaseState t Inr nx e show ?thesis
        by (auto simp: iteration_def state_registered_def)
    qed
  qed
qed

lemma process_loop_extends_aux:
  "process_loop sm p x w = Some y \<Longrightarrow>
   (\<forall>st \<in> ran (states sm). appending st) \<longrightarrow> state_registered sm \<longrightarrow>
   extends (mach sm) w (mach (fst (snd y))) (snd (snd y))"
proof (induction sm p x w y rule: process_loop.raw_induct [rotated 1, consumes 1])
  case (1 loop sm p x w y)
  show ?case
  proof (intro impI)
    assume reg: "\<forall>st \<in> ran (states sm). appending st" and sr: "state_registered sm"
    from 1(2) obtain s where it: "iteration sm p x w = Some s"
      by (auto split: option.splits)
    note inv = iteration_extends [OF reg sr it]
    show "extends (mach sm) w (mach (fst (snd y))) (snd (snd y))"
    proof (cases s)
      case (Next sm1 p1 x1 w1)
      with 1(2) it have l: "loop sm1 p1 x1 w1 = Some y" by simp
      from inv Next have a: "states sm1 = states sm" and b: "state_registered sm1"
        and c: "extends (mach sm) w (mach sm1) w1" by simp_all
      from 1(1) [OF l] a b reg
      have "extends (mach sm1) w1 (mach (fst (snd y))) (snd (snd y))" by simp
      with c show ?thesis by (rule extends_trans)
    next
      case (Return v sm1 w1)
      with 1(2) it inv show ?thesis by auto
    next
      case (Raise e sm1 w1)
      with 1(2) it inv show ?thesis by auto
    qed
  qed
qed

lemma process_extends:
  assumes "process sm w = Some (out, sm', w')"
    and "\<forall>st \<in> ran (states sm). appending st" and "state_registered sm"
  shows "extends (mach sm) w (mach sm') w'"
  using process_loop_extends_aux [of sm PNone "PDict []" w "(out, sm', w')"] assms
  by (simp add: process_def)

lemma default_loop_lists: "lists (snd (default_loop c ps N i w)) = lists w"
proof (induction c ps N i w rule: default_loop.induct)
  case (1 c ps N i w)
  show ?case
  proof (cases "i < N")
    case False
    then show ?thesis by (subst default_loop.simps) (simp add: logging_def)
  next
    case True
    obtain a w1 where cc: "call_client c ps w = (a, w1)" by (cases "call_client c ps w")
    then have l1: "lists w1 = lists w" by (auto simp: call_client_def)
    show ?thesis
    proof (cases a)
      case (Inl e)
      with True cc l1 show ?thesis by (subst default_loop.simps) simp
    next
      case (Inr response)
      show ?thesis
      proof (cases "choices response")
        case Nil
        with True cc l1 Inr show ?thesis by (subst default_loop.simps) simp
      next
        case (Cons message rest)
        show ?thesis
        proof (cases "truthy (content message)")
          case t: True
          with True cc l1 Inr Cons show ?thesis by (subst default_loop.simps) simp
        next
          case f: False
          from 1 [OF True cc [symmetric] Inr Cons f] True cc l1 Inr Cons f
          show ?thesis by (subst default_loop.simps) (simp add: logging_def)
        qed
      qed
    qed
  qed
qed

lemma openrouter_loop_lists: "lists (snd (openrouter_loop c ps debug N i w)) = lists w"
proof (induction c ps debug N i w rule: openrouter_loop.induct)
  case (1 c ps debug N i w)
  let ?w0 = "if debug
             then logging (LogValue INFO ''OpenRouter request params: '' (as_dict ps) []) w
             else w"
  show ?case
  proof (cases "i < N")
    case False
    then show ?thesis by (subst openrouter_loop.simps) (simp add: logging_def)
  next
    case True
    obtain a w1 where cc: "call_client c ps ?w0 = (a, w1)" by (cases "call_client c ps ?w0")
    then have l1: "lists w1 = lists w" by (auto simp: call_client_def logging_def)
    show ?thesis
    proof (cases a)
      case (Inl e)
      show ?thesis
      proof (cases "isinstance_Exception e")
        case t: True
        from 1(1) [OF True cc [symmetric] Inl t] True cc l1 Inl t
        show ?thesis by (subst openrouter_loop.simps) (simp add: logging_def)
      next
        case f: False
        with True cc l1 Inl show ?thesis by (subst openrouter_loop.simps) simp
      qed
    next
      case (Inr response)
      show ?thesis
      proof (cases "choices response = [] \<or> \<not> truthy (content (hd (choices response)))")
        case t: True
        from 1(2) [OF True cc [symmetric] Inr t] True cc l1 Inr t
        show ?thesis by (subst openrouter_loop.simps) (simp add: logging_def)
      next
        case f: False
        with True cc l1 Inr show ?thesis by (subst openrouter_loop.simps) simp
      qed
    qed
  qed
qed

lemma reliable_parse_lists:
  "lists (snd (reliable_parse c ps max_retries debug model_info w)) = lists w"
  by (simp add: reliable_parse_def Let_def default_loop_lists openrouter_loop_lists
        log_reasoning_def logging_def split: option.splits prod.splits sum.splits)

lemma reliable_parse_first_answer:
  assumes "openrouter_info model_info = None" and "c ps (requests w) = Inr r"
    and "choices r = message # rest" and "truthy (content message)"
  shows "reliable_parse c ps (Some 3) debug model_info w =
           (Inr (Some r), w\<lparr>requests := Suc (requests w)\<rparr>)"
  using assms
  by (simp add: reliable_parse_def) (subst default_loop.simps, simp add: call_client_def)

text \<open>What a chat action does to the message list of its machine.\<close>

lemma chat_action_extends:
  assumes "chat_action prompt_template response_parser save_option model_name debug kwargs m w =
             Some (out, m', w')"
  shows "extends m w m' w'"
proof -
  have rp: "\<And>c ps mr d mi w0 a w1.
              reliable_parse c ps mr d mi w0 = (a, w1) \<Longrightarrow> lists w1 = lists w0"
    using reliable_parse_lists by (metis snd_conv)
  from assms show ?thesis
    by (auto simp: chat_action_def Let_def extends_def list_append_def logging_def chat_save_def
             split: sum.splits option.splits prod.splits list.splits if_splits
             dest!: rp)
qed

lemma chat_action_appends:
  assumes "prompt_template kwargs = Inr prompt"
    and "chat_action prompt_template response_parser save_option model_name debug kwargs m w =
           Some (Inr v, m', w')"
  shows "\<exists>a. lists w' (messages m) =
               lists w (messages m) @
               [chat_message ''user'' (PStr prompt), chat_message ''assistant'' a]"
proof -
  have rp: "\<And>c ps mr d mi w0 a w1.
              reliable_parse c ps mr d mi w0 = (a, w1) \<Longrightarrow> lists w1 = lists w0"
    using reliable_parse_lists by (metis snd_conv)
  from assms show ?thesis
    by (auto simp: chat_action_def Let_def list_append_def logging_def chat_save_def
             split: sum.splits option.splits prod.splits list.splits if_splits
             dest!: rp)
qed

lemma init_facts:
  assumes "StateMachine_init ev context defs initial path mode req w = (Inr sm, w1)"
  shows "ctxt (mach sm) = context \<and> state_registered sm \<and>
         (\<forall>r. ctx_messages context = Some r \<longrightarrow> messages (mach sm) = r \<and> w1 = w) \<and>
         (ctx_messages context = None \<longrightarrow>
            messages (mach sm) = next_ref w \<and> lists w1 (next_ref w) = [] \<and>
            next_ref w1 = Suc (next_ref w) \<and>
            (\<forall>r. r \<noteq> next_ref w \<longrightarrow> lists w1 r = lists w r))"
  using assms
  by (auto simp: StateMachine_init_def new_list_def state_registered_def ran_def
           split: sum.splits option.splits prod.splits if_splits)

text \<open>
  C10 (as the code has it). A machine that the constructor returns holds the context it
  was given. When that context has a \<^verbatim>\<open>messages\<close> attribute, the machine's \<open>messages\<close> is the
  same list object and the construction changes nothing in it; when it has none, the
  machine's list is a new, empty one, and every other list is as before. \<^verbatim>\<open>process()\<close>
  itself never rebinds the list or the context's attribute: when every registered state
  is \<open>appending\<close> (no action or transition rebinds either, and each only appends to the
  machine's list, as a chat action does), the machine after \<^verbatim>\<open>process()\<close> still holds the
  same list, the context still names the same list, and that list is its former
  contents followed by what was appended. A chat action that returns has appended its
  prompt and the reply, in this order, to that list.
\<close>

theorem context_messages_shared:
  assumes "StateMachine_init ev context defs initial path mode req w = (Inr sm, w1)"
  shows "ctxt (mach sm) = context \<and>
         (\<forall>r. ctx_messages context = Some r \<longrightarrow> messages (mach sm) = r \<and> w1 = w) \<and>
         (ctx_messages context = None \<longrightarrow>
            messages (mach sm) = next_ref w \<and> lists w1 (next_ref w) = [] \<and>
            next_ref w1 = Suc (next_ref w) \<and>
            (\<forall>r. r \<noteq> next_ref w \<longrightarrow> lists w1 r = lists w r)) \<and>
         ((\<forall>st \<in> ran (states sm). appending st) \<longrightarrow>
          process sm w1 = Some (out, sm', w2) \<longrightarrow>
            messages (mach sm') = messages (mach sm) \<and>
            ctx_messages (ctxt (mach sm')) = ctx_messages context \<and>
            (\<exists>new. lists w2 (messages (mach sm)) = lists w1 (messages (mach sm)) @ new)) \<and>
         (\<forall>kvs m cw o' m' cw'.
            chat_action prompt_template response_parser save_option model_name debug kvs m cw =
              Some (o', m', cw') \<longrightarrow> extends m cw m' cw') \<and>
         (prompt_template kwargs = Inr prompt \<longrightarrow>
          chat_action prompt_template response_parser save_option model_name debug kwargs
            (mach sm) w1 = Some (Inr v, m1, w3) \<longrightarrow>
            (\<exists>a. lists w3 (messages (mach sm)) =
                   lists w1 (messages (mach sm)) @
                   [chat_message ''user'' (PStr prompt), chat_message ''assistant'' a]))"
proof -
  note f = init_facts [OF assms]
  have p: "(\<forall>st \<in> ran (states sm). appending st) \<longrightarrow>
           process sm w1 = Some (out, sm', w2) \<longrightarrow>
             messages (mach sm') = messages (mach sm) \<and>
             ctx_messages (ctxt (mach sm')) = ctx_messages context \<and>
             (\<exists>new. lists w2 (messages (mach sm)) = lists w1 (messages (mach sm)) @ new)"
  proof (intro impI)
    assume "\<forall>st \<in> ran (states sm). appending st" and "process sm w1 = Some (out, sm', w2)"
    with f have "extends (mach sm) w1 (mach sm') w2" using process_extends by blast
    with f show "messages (mach sm') = messages (mach sm) \<and>
             ctx_messages (ctxt (mach sm')) = ctx_messages context \<and>
             (\<exists>new. lists w2 (messages (mach sm)) = lists w1 (messages (mach sm)) @ new)"
      by (simp add: extends_def)
  qed
  have c: "\<forall>kvs m cw o' m' cw'.
            chat_action prompt_template response_parser save_option model_name debug kvs m cw =
              Some (o', m', cw') \<longrightarrow> extends m cw m' cw'"
    using chat_action_extends by blast
  have a: "prompt_template kwargs = Inr prompt \<longrightarrow>
          chat_action prompt_template response_parser save_option model_name debug kwargs
            (mach sm) w1 = Some (Inr v, m1, w3) \<longrightarrow>
            (\<exists>a. lists w3 (messages (mach sm)) =
                   lists w1 (messages (mach sm)) @
                   [chat_message ''user'' (PStr prompt), chat_message ''assistant'' a])"
    using chat_action_appends by blast
  from f p c a show ?thesis by simp
qed

lemma chat_machine_built:
  "StateMachine_init chat_env shared_context chat_defs ''A'' [] ''chat'' True w_x =
     (Inr chat_machine, w_x)"
  by (simp add: chat_machine_def StateMachine_init_def load_config_of_def chat_env_def
        shared_context_def chat_defs_def entry_def exit_entry_def create_states_def)

lemma chat_machine_fields:
  "state chat_machine = Some (BaseState ''A'' ask (Some (always (PStr ''Exit''))))"
  "states chat_machine =
     [''A'' \<mapsto> BaseState ''A'' ask (Some (always (PStr ''Exit''))), ''Exit'' \<mapsto> ExitState]"
  "messages (mach chat_machine) = 0"
  "ctxt (mach chat_machine) = shared_context"
  "clients (mach chat_machine) =
     [(polite, [(''name'', PStr ''gpt''), (''model_name'', PStr ''gpt-4o'')])]"
  by (simp_all add: chat_machine_def StateMachine_init_def load_config_of_def chat_env_def
        shared_context_def chat_defs_def entry_def exit_entry_def create_states_def)

lemma chat_machine_appending: "\<forall>st \<in> ran (states chat_machine). appending st"
proof
  fix st assume "st \<in> ran (states chat_machine)"
  then have "st = BaseState ''A'' ask (Some (always (PStr ''Exit''))) \<or> st = ExitState"
    by (auto simp: chat_machine_fields ran_def split: if_splits)
  then show "appending st"
    by (auto simp: appending_def ask_def create_chat_action_def always_def
             dest: chat_action_extends)
qed

text \<open>The chat action \<open>ask\<close> on any machine whose only client is \<open>polite\<close>.\<close>

lemma ask_answered:
  assumes "clients m = [(polite, [(''name'', PStr ''gpt''), (''model_name'', PStr ''gpt-4o'')])]"
  shows "chat_action (\<lambda>kwargs. Inr ''hello'') None ''none'' ''gpt'' False [] m w =
     Some (Inr (PStr ''hi''), m,
           list_append (messages m) (chat_message ''assistant'' (PStr ''hi''))
             (logging (LogValue INFO ''Model '' (PStr ''gpt-4o'')
                         '' processed the request successfully.'')
                ((logging (LogValue INFO ''Waiting for the model '' (PStr ''gpt-4o'')
                             '' to process the request...'')
                    (list_append (messages m) (chat_message ''user'' (PStr ''hello'')) w))
                 \<lparr>requests := Suc (requests w)\<rparr>)))"
proof -
  let ?w1 = "list_append (messages m) (chat_message ''user'' (PStr ''hello'')) w"
  let ?w2 = "logging (LogValue INFO ''Waiting for the model '' (PStr ''gpt-4o'')
                        '' to process the request...'') ?w1"
  let ?r = "\<lparr>choices = [\<lparr>content = PStr ''hi'', parsed = PNone\<rparr>]\<rparr>"
  have rq: "requests ?w2 = requests w" by (simp add: logging_def list_append_def)
  have rp: "\<And>ps. reliable_parse polite ps (Some 3) False
              (Some [(''name'', PStr ''gpt''), (''model_name'', PStr ''gpt-4o'')]) ?w2 =
            (Inr (Some ?r), ?w2\<lparr>requests := Suc (requests ?w2)\<rparr>)"
    by (rule reliable_parse_first_answer [where message = "\<lparr>content = PStr ''hi'', parsed = PNone\<rparr>"
               and rest = "[]"])
       (simp_all add: openrouter_info_def polite_def)
  show ?thesis
    by (simp add: chat_action_def Let_def assms rp rq chat_save_def)
qed

theorem context_messages_shared_witness:
  "ctx_messages shared_context = Some 0 \<and> lists w_x 0 = [PStr ''x''] \<and>
   fst (StateMachine_init chat_env shared_context chat_defs ''A'' [] ''chat'' True w_x) =
     Inr chat_machine \<and>
   messages (mach chat_machine) = 0 \<and>
   map_option (\<lambda>(out, sm', w').
                 (out, messages (mach sm'), ctx_messages (ctxt (mach sm')), lists w' 0))
     (process chat_machine w_x) =
     Some (Inr (PStr ''hi''), 0, Some 0,
           [PStr ''x'', chat_message ''user'' (PStr ''hello''),
            chat_message ''assistant'' (PStr ''hi'')])"
proof -
  let ?w3 = "list_append 0 (chat_message ''assistant'' (PStr ''hi''))
             (logging (LogValue INFO ''Model '' (PStr ''gpt-4o'')
                         '' processed the request successfully.'')
                ((logging (LogValue INFO ''Waiting for the model '' (PStr ''gpt-4o'')
                             '' to process the request...'')
                    (list_append 0 (chat_message ''user'' (PStr ''hello'')) w_x))
                 \<lparr>requests := Suc (requests w_x)\<rparr>))"
  let ?sm' = "chat_machine\<lparr>state := Some ExitState, mach := mach chat_machine\<rparr>"
  have h: "StateMachine_init chat_env shared_context chat_defs ''A'' [] ''chat'' True w_x =
             (Inr chat_machine, w_x)"
    by (rule chat_machine_built)
  have t: "(\<lambda>kwargs :: (string \<times> pyval) list. Inr ''hello'' :: exn + string) [] = Inr ''hello''"
    by simp
  have ans: "chat_action (\<lambda>kwargs. Inr ''hello'') None ''none'' ''gpt'' False []
               (mach chat_machine) w_x = Some (Inr (PStr ''hi''), mach chat_machine, ?w3)"
    using ask_answered [of "mach chat_machine" w_x] by (simp add: chat_machine_fields)
  have run: "process chat_machine w_x = Some (Inr (PStr ''hi''), ?sm', ?w3)"
    unfolding process_def
    apply (subst process_loop.simps)
    apply (simp add: iteration_def try_body_def invoke_action_def co_varnames_def
             call_action_def bind_kwargs_def chat_machine_fields ask_def create_chat_action_def
             ans always_def decode_next_state_def states_get_def)
    apply (subst process_loop.simps)
    apply (simp add: iteration_def)
    done
  note inst = context_messages_shared
    [OF h, where out = "Inr (PStr ''hi'')" and sm' = ?sm' and ?w2.0 = ?w3
       and prompt_template = "\<lambda>kwargs. Inr ''hello''" and response_parser = None
       and save_option = "''none''" and model_name = "''gpt''" and debug = False
       and kwargs = "[]" and prompt = "''hello''" and v = "PStr ''hi''"
       and ?m1.0 = "mach chat_machine" and ?w3.0 = ?w3]
  from inst chat_machine_appending run
  have e: "messages (mach ?sm') = messages (mach chat_machine) \<and>
           ctx_messages (ctxt (mach ?sm')) = ctx_messages shared_context" by blast
  from inst t ans
  have a: "\<exists>a. lists ?w3 (messages (mach chat_machine)) =
             lists w_x (messages (mach chat_machine)) @
             [chat_message ''user'' (PStr ''hello''), chat_message ''assistant'' a]"
    by blast
  have l: "lists ?w3 0 =
             [PStr ''x'', chat_message ''user'' (PStr ''hello''),
              chat_message ''assistant'' (PStr ''hi'')]"
    by (simp add: list_append_def logging_def w_x_def)
  from h e l run show ?thesis
    by (simp add: shared_context_def w_x_def chat_machine_fields)
qed

lemma rebinding_machine_built:
  "StateMachine_init chat_env shared_context rebinding_defs ''A'' [] ''chat'' True w_x =
     (Inr rebinding_machine, w_x)"
  by (simp add: rebinding_machine_def StateMachine_init_def load_config_of_def chat_env_def
        shared_context_def rebinding_defs_def entry_def exit_entry_def create_states_def)

lemma rebinding_machine_fields:
  "state rebinding_machine = Some (BaseState ''A'' rebind (Some (always (PStr ''B''))))"
  "states rebinding_machine =
     [''A'' \<mapsto> BaseState ''A'' rebind (Some (always (PStr ''B''))),
      ''B'' \<mapsto> BaseState ''B'' ask (Some (always (PStr ''Exit''))),
      ''Exit'' \<mapsto> ExitState]"
  "messages (mach rebinding_machine) = 0"
  "ctxt (mach rebinding_machine) = shared_context"
  "clients (mach rebinding_machine) =
     [(polite, [(''name'', PStr ''gpt''), (''model_name'', PStr ''gpt-4o'')])]"
  by (simp_all add: rebinding_machine_def StateMachine_init_def load_config_of_def chat_env_def
        shared_context_def rebinding_defs_def entry_def exit_entry_def create_states_def)

text \<open>
  C10 as stated fails. The context's \<^verbatim>\<open>messages\<close> is the list with reference 0, holding
  \<open>x\<close>, and the constructed machine shares it. State A rebinds \<^verbatim>\<open>machine.messages\<close> to a new
  list (reference 1), state B is a chat action. After \<^verbatim>\<open>process()\<close> the prompt and the reply
  are in the machine's list, and the context's list still holds \<open>x\<close> alone: what the chat
  action appended is not visible through the context.
\<close>

theorem rebound_messages_counterexample:
  "ctx_messages shared_context = Some 0 \<and>
   fst (StateMachine_init chat_env shared_context rebinding_defs ''A'' [] ''chat'' True w_x) =
     Inr rebinding_machine \<and>
   messages (mach rebinding_machine) = 0 \<and>
   map_option (\<lambda>(out, sm', w').
                 (out, messages (mach sm'), ctx_messages (ctxt (mach sm')),
                  lists w' 0, lists w' 1))
     (process rebinding_machine w_x) =
     Some (Inr (PStr ''hi''), 1, Some 0, [PStr ''x''],
           [chat_message ''system'' (PStr ''You are an expert in code search.''),
            chat_message ''user'' (PStr ''hello''),
            chat_message ''assistant'' (PStr ''hi'')])"
proof -
  have run: "map_option (\<lambda>(out, sm', w').
                 (out, messages (mach sm'), ctx_messages (ctxt (mach sm')),
                  lists w' 0, lists w' 1))
     (process rebinding_machine w_x) =
     Some (Inr (PStr ''hi''), 1, Some 0, [PStr ''x''],
           [chat_message ''system'' (PStr ''You are an expert in code search.''),
            chat_message ''user'' (PStr ''hello''),
            chat_message ''assistant'' (PStr ''hi'')])"
    unfolding process_def
    apply (subst process_loop.simps)
    apply (simp add: iteration_def try_body_def invoke_action_def co_varnames_def
             call_action_def bind_kwargs_def rebinding_machine_fields rebind_def new_list_def
             always_def decode_next_state_def states_get_def)
    apply (subst process_loop.simps)
    apply (simp add: iteration_def try_body_def invoke_action_def co_varnames_def
             call_action_def bind_kwargs_def rebinding_machine_fields ask_def
             create_chat_action_def ask_answered always_def decode_next_state_def
             states_get_def)
    apply (subst process_loop.simps)
    apply (simp add: iteration_def rebinding_machine_fields shared_context_def
             list_append_def logging_def w_x_def)
    done
  from rebinding_machine_built run show ?thesis
    by (simp add: shared_context_def rebinding_machine_fields)
qed

end
